theory Spec2Isabelle
  imports Complex_Main
begin

section \<open>Python values and exceptions\<close>

text \<open>
  The add-on is Python running inside a host application.  Every exception the modelled
  code can raise is a value of \<open>py_error\<close>; a function that can raise returns
  \<open>py_error + 'a\<close> with \<open>Inl\<close> for the exception.  Python floats are modelled as
  \<open>real\<close>: the code only copies and compares them.
\<close>

datatype py_error =
  AttributeError | KeyError | TypeError | IndexError | RuntimeError | NameError
  | ReferenceError

text \<open>The values of a socket's \<open>default_value\<close>: the sockets of shader nodes hold numbers,
  booleans, and tuples (vectors and colours).\<close>

datatype pyval = PyFloat real | PyInt int | PyBool bool | PyTuple "real list"

text \<open>The values of the other node attributes the code assigns (enumeration items are
  strings).\<close>

datatype attr = AStr string | ANum real | ABool bool | ATuple "real list"

text \<open>
  \<open>str.upper()\<close>, \<open>str.replace('_', ' ')\<close>, \<open>str.startswith\<close>, the substring test
  \<open>p in s\<close> and \<open>s.split(' ')[-1]\<close>, on ASCII strings.
\<close>

definition upper :: "string \<Rightarrow> string" where
  "upper s = map (\<lambda>c. case map_of (zip ''abcdefghijklmnopqrstuvwxyz''
                                              ''ABCDEFGHIJKLMNOPQRSTUVWXYZ'') c of
                          Some u \<Rightarrow> u | None \<Rightarrow> c) s"

definition replace_underscores :: "string \<Rightarrow> string" where
  "replace_underscores s = map (\<lambda>c. if c = CHR ''_'' then CHR '' '' else c) s"

definition startswith :: "string \<Rightarrow> string \<Rightarrow> bool" where
  "startswith s p = (take (length p) s = p)"

fun contains_str :: "string \<Rightarrow> string \<Rightarrow> bool" where
  "contains_str p [] = (p = [])"
| "contains_str p (c # s) = (startswith (c # s) p \<or> contains_str p s)"

definition last_word :: "string \<Rightarrow> string" where
  "last_word s = rev (takeWhile (\<lambda>c. c \<noteq> CHR '' '') (rev s))"

section \<open>The host's data: node trees, materials, objects, scene settings\<close>

text \<open>
  A socket has a name (not necessarily unique on its node), a type and, unless it is a
  shader socket, a default value.  A node has a name that is unique in its tree, a
  type, its sockets, and for a group node the name of the node group it instances;
  \<open>attrs\<close> holds the other attributes the code assigns.  A link joins an output socket
  to an input socket; sockets are identified by their position on the node, as the host
  identifies them by pointer and not by name.
\<close>

record socket =
  name :: string
  type :: string
  default_value :: "pyval option"

record node =
  name :: string
  type :: string
  inputs :: "socket list"
  outputs :: "socket list"
  location :: "real \<times> real"
  node_tree :: "string option"
  attrs :: "(string \<times> attr) list"

record link =
  from_node :: string
  from_socket :: nat
  to_node :: string
  to_socket :: nat

text \<open>An item of a node group's interface, as \<open>tree.interface.new_socket\<close> makes it.\<close>

record interface_socket =
  name :: string
  socket_type :: string
  in_out :: string
  parent :: "string option"
  default_value :: "pyval option"

record node_tree =
  nodes :: "node list"
  links :: "link list"
  interface :: "interface_socket list"
  panels :: "string list"
  use_fake_user :: bool

record material =
  use_nodes :: bool
  node_tree :: "node_tree option"
  blend_method :: string

text \<open>An object.  A material slot holds a material's name, or the empty string.\<close>

record object =
  material_slots :: "string list"
  active_material_index :: nat
  location_z :: real
  hide_viewport :: bool
  hide_render :: bool
  hidden :: bool
  color_alpha :: real

record image_settings =
  color_mode :: string
  file_format :: string
  color_depth :: string
  compression :: int

record render =
  engine :: string
  use_single_layer :: bool
  film_transparent :: bool
  use_high_quality_normals :: bool
  filter_size :: real
  resolution_x :: int
  resolution_y :: int
  resolution_percentage :: int
  image_settings :: image_settings
  use_sequencer :: bool
  use_compositing :: bool
  dither_intensity :: real

record eevee =
  taa_render_samples :: int
  taa_samples :: int
  use_bloom :: bool
  use_gtao :: bool
  gtao_distance :: real
  gtao_quality :: real
  use_overscan :: bool
  overscan_size :: real

record cycles =
  samples :: int
  preview_samples :: int
  filter_width :: real
  pixel_filter_type :: string

record shading =
  light :: string
  color_type :: string
  show_backface_culling :: bool
  show_xray :: bool
  show_shadows :: bool
  show_cavity :: bool
  use_dof :: bool
  show_object_outline :: bool
  show_specular_highlight :: bool
  cavity_type :: string
  cavity_ridge_factor :: real
  curvature_ridge_factor :: real
  cavity_valley_factor :: real
  curvature_valley_factor :: real
  single_color :: "real list"

record display =
  render_aa :: string
  viewport_aa :: string
  matcap_ssao_distance :: real
  shading :: shading

record view_settings =
  view_transform :: string
  look :: string
  exposure :: real
  gamma :: real

record display_settings =
  display_device :: string

record world =
  use_nodes :: bool

record space =
  use_local_camera :: bool

record area =
  type :: string
  spaces :: "space list"

section \<open>Bake map descriptors (utils/baker.py)\<close>

text \<open>
  The properties every \<open>Baker\<close> subclass declares.  The subclasses extend this record
  with their own properties.
\<close>

record baker =
  enabled :: bool
  reimport :: bool
  suffix :: string
  visibility :: bool
  samples :: int
  samples_cycles :: int
  samples_workbench :: string
  contrast :: string
  engine :: string

record normals = baker +
  flip_y :: bool
  use_texture :: bool

record curvature = baker +
  ridge :: real
  valley :: real
  savedCavityType :: string
  savedCavityRidgeFactor :: real
  savedCurveRidgeFactor :: real
  savedCavityValleyFactor :: real
  savedCurveValleyFactor :: real
  savedRidgeDistance :: real
  savedSingleColor :: "real list"

record occlusion = baker +
  gamma :: real
  distance :: real
  savedUseOverscan :: bool
  savedOverscanSize :: real

record height = baker +
  invert :: bool
  distance :: real
  height_method :: string

text \<open>
  The scene property group \<open>scene.gd\<close>, as far as the modelled code reads it, the scene
  and the whole state: \<open>bpy.context\<close> and \<open>bpy.data\<close>.
\<close>

record gd =
  filter_width :: real
  resolution_x :: int
  resolution_y :: int
  coll_rendered :: bool
  coll_visible :: bool
  format :: string
  exr_depth :: string
  depth :: string
  png_compression :: int
  reference :: "string option"
  preview_state :: bool
  normals :: "normals list"
  occlusion :: "occlusion list"

record scene =
  render :: render
  eevee :: eevee
  cycles :: cycles
  display :: display
  view_settings :: view_settings
  display_settings :: display_settings
  world :: "world option"
  camera :: "string option"
  gd :: gd

record bpy =
  context_scene :: scene
  context_view_layer_use :: bool
  context_screen_areas :: "area list"
  data_objects :: "string \<rightharpoonup> object"
  data_images :: "string list"
  data_node_groups :: "string \<rightharpoonup> node_tree"
  data_materials :: "(string \<times> material) list"
  data_texts :: "string \<rightharpoonup> string"
  app_version :: "nat \<times> nat \<times> nat"

text \<open>
  The constants of the add-on's constants module (\<open>Global\<close>) that the modelled code
  reads.  The module is not part of the sources at hand, so the constants are a parameter.
\<close>

record Global =
  TRIM_CAMERA_NAME :: string
  BG_PLANE_NAME :: string
  GD_MATERIAL_NAME :: string
  NG_NODE_WARNING :: string
  NORMAL_NODE :: string
  CURVATURE_NODE :: string
  OCCLUSION_NODE :: string
  HEIGHT_NODE :: string
  ALPHA_NODE :: string
  COLOR_NODE :: string
  EMISSIVE_NODE :: string
  ROUGHNESS_NODE :: string
  METALLIC_NODE :: string
  SHADER_MAP_NAMES :: "string list"
  ALPHA_NAME :: string
  COLOR_NAME :: string
  ROUGHNESS_NAME :: string
  METALLIC_NAME :: string

subsection \<open>Read accessors over the configured maps\<close>

text \<open>
  \<open>get_bakers\<close>: \<open>gd_attr\<close> is the attribute table of the scene property group, so
  \<open>getattr(gd, name)\<close> is a lookup in it; it raises \<open>AttributeError\<close> for a missing attribute, which the
  loop catches (it prints a message and goes on).  \<open>ALL_MAP_IDS\<close> is a constant of the
  add-on's constants module and is a parameter here.
\<close>

fun get_bakers :: "string list \<Rightarrow> (string \<rightharpoonup> 'a list) \<Rightarrow> 'a list list" where
  "get_bakers [] gd_attr = []"
| "get_bakers (nm # names) gd_attr =
     (case gd_attr nm of
        Some bakers \<Rightarrow> bakers # get_bakers names gd_attr
      | None \<Rightarrow> get_bakers names gd_attr)"

text \<open>The inner loop of \<open>get_bake_maps\<close> over one baker collection.\<close>

fun bake_maps_of :: "bool \<Rightarrow> 'a baker_scheme list \<Rightarrow> 'a baker_scheme list" where
  "bake_maps_of enabled_only [] = []"
| "bake_maps_of enabled_only (bake_map # rest) =
     (if enabled_only \<and> \<not> (enabled bake_map \<and> visibility bake_map)
      then bake_maps_of enabled_only rest
      else bake_map # bake_maps_of enabled_only rest)"

fun collect_bake_maps :: "bool \<Rightarrow> 'a baker_scheme list list \<Rightarrow> 'a baker_scheme list" where
  "collect_bake_maps enabled_only [] = []"
| "collect_bake_maps enabled_only (bakers # rest) =
     bake_maps_of enabled_only bakers @ collect_bake_maps enabled_only rest"

definition get_bake_maps ::
  "string list \<Rightarrow> (string \<rightharpoonup> 'a baker_scheme list) \<Rightarrow> bool \<Rightarrow> 'a baker_scheme list" where
  "get_bake_maps ALL_MAP_IDS gd_attr enabled_only =
     collect_bake_maps enabled_only (get_bakers ALL_MAP_IDS gd_attr)"

subsection \<open>The host's behaviour the code relies on\<close>

text \<open>
  What the host does is not part of the add-on, so it is a parameter of the model:
  \<open>new_node\<close> is the node vocabulary (the node that \<open>nodes.new(idname)\<close> creates, absent
  for an unknown \<open>idname\<close>), \<open>unique_name used wanted\<close> is the name the host gives to a
  node that asks for \<open>wanted\<close> when the names \<open>used\<close> are taken in its tree,
  \<open>set_default\<close> is the assignment to a socket's \<open>default_value\<close>, which the host
  type-checks, \<open>default_tree\<close> is the node tree a material gets when \<open>use_nodes\<close> is
  first set, and \<open>set_order\<close> is the order in which Python iterates a set of nodes (given
  by their names), which the language leaves open.
\<close>

record host =
  new_node :: "string \<rightharpoonup> node"
  unique_name :: "string list \<Rightarrow> string \<Rightarrow> string"
  set_default :: "socket \<Rightarrow> pyval \<Rightarrow> py_error + socket"
  default_tree :: node_tree
  set_order :: "string list \<Rightarrow> string list"

subsection \<open>Lookups in a node tree\<close>

definition nodes_get :: "node_tree \<Rightarrow> string \<Rightarrow> node option" where
  "nodes_get t n = find (\<lambda>x. node.name x = n) (nodes t)"

definition node_names :: "node_tree \<Rightarrow> string list" where
  "node_names t = map node.name (nodes t)"

definition update_node :: "string \<Rightarrow> (node \<Rightarrow> node) \<Rightarrow> node_tree \<Rightarrow> node_tree" where
  "update_node n f t = t\<lparr>nodes := map (\<lambda>x. if node.name x = n then f x else x) (nodes t)\<rparr>"

text \<open>\<open>node.inputs[i].default_value = v\<close> on the node called \<open>n\<close> of a tree;
  \<open>nodes.get(n)\<close> is \<open>None\<close> for a missing node, and the attribute access then raises.\<close>

definition set_input_default ::
  "host \<Rightarrow> string \<Rightarrow> nat \<Rightarrow> pyval \<Rightarrow> node_tree \<Rightarrow> py_error + node_tree" where
  "set_input_default H n i v t =
     (case nodes_get t n of
        None \<Rightarrow> Inl AttributeError
      | Some x \<Rightarrow>
          if i < length (inputs x) then
            (case set_default H (inputs x ! i) v of
               Inl e \<Rightarrow> Inl e
             | Inr s \<Rightarrow> Inr (update_node n (\<lambda>y. y\<lparr>inputs := (inputs y)[i := s]\<rparr>) t))
          else Inl IndexError)"

definition set_attr :: "string \<Rightarrow> attr \<Rightarrow> node \<Rightarrow> node" where
  "set_attr k v x = x\<lparr>attrs := (k, v) # filter (\<lambda>p. fst p \<noteq> k) (attrs x)\<rparr>"

subsection \<open>Render settings of a bake map\<close>

definition COLOR_SPACE :: string where
  "COLOR_SPACE = ''sRGB''"

definition VIEW_TRANSFORM :: string where
  "VIEW_TRANSFORM = ''Standard''"

definition set_color_management :: "string \<Rightarrow> string \<Rightarrow> scene \<Rightarrow> scene" where
  "set_color_management dev vt sc =
     sc\<lparr>display_settings := (display_settings sc)\<lparr>display_device := dev\<rparr>,
        view_settings := (view_settings sc)\<lparr>view_transform := vt, look := ''None'',
                           exposure := 0, view_settings.gamma := 1\<rparr>\<rparr>"

text \<open>\<open>Baker.apply_render_settings\<close>; the \<open>check\<close> argument is not read by the code.\<close>

definition apply_render_settings :: "'a baker_scheme \<Rightarrow> scene \<Rightarrow> scene" where
  "apply_render_settings self sc =
     (let sc = sc\<lparr>render := (render sc)\<lparr>render.engine := upper (baker.engine self)\<rparr>\<rparr>;
          sc = (if render.engine (render sc) = ''BLENDER_EEVEE'' then
                  sc\<lparr>eevee := (eevee sc)\<lparr>taa_render_samples := baker.samples self,
                                          taa_samples := baker.samples self\<rparr>\<rparr>
                else if render.engine (render sc) = ''CYCLES'' then
                  sc\<lparr>cycles := (cycles sc)\<lparr>cycles.samples := samples_cycles self,
                                            preview_samples := samples_cycles self\<rparr>\<rparr>
                else if render.engine (render sc) = ''BLENDER_WORKBENCH'' then
                  sc\<lparr>display := (display sc)\<lparr>render_aa := samples_workbench self,
                                              viewport_aa := samples_workbench self\<rparr>\<rparr>
                else sc);
          sc = set_color_management COLOR_SPACE VIEW_TRANSFORM sc
      in sc\<lparr>view_settings := (view_settings sc)\<lparr>look := replace_underscores (contrast self)\<rparr>\<rparr>)"

text \<open>\<open>Baker.setup\<close> and \<open>Baker.cleanup\<close>, which the Color, Emissive, Roughness and
  Metalness maps inherit unchanged.\<close>

definition Baker_setup :: "'a baker_scheme \<Rightarrow> scene \<Rightarrow> scene" where
  "Baker_setup self sc = apply_render_settings self sc"

definition Baker_cleanup :: "'a baker_scheme \<Rightarrow> scene \<Rightarrow> scene" where
  "Baker_cleanup self sc = sc"

subsection \<open>Curvature\<close>

text \<open>\<open>Curvature.update_curvature\<close>, the update callback of \<open>ridge\<close> and \<open>valley\<close>.
  \<open>bpy.data.scenes[str(context.scene.name)]\<close> is the context's scene.\<close>

definition update_curvature :: "'a curvature_scheme \<Rightarrow> scene \<Rightarrow> scene" where
  "update_curvature self sc =
     (if \<not> preview_state (gd sc) then sc
      else sc\<lparr>display := (display sc)\<lparr>shading := (shading (display sc))
             \<lparr>cavity_ridge_factor := ridge self,
              curvature_ridge_factor := ridge self,
              curvature_valley_factor := valley self\<rparr>\<rparr>\<rparr>)"

subsection \<open>Occlusion\<close>

text \<open>\<open>Occlusion.update_gamma\<close> and \<open>Occlusion.update_distance\<close>, the update callbacks of
  \<open>gamma\<close> and \<open>distance\<close>.  \<open>bpy.data.node_groups[self.NODE]\<close> raises \<open>KeyError\<close> for a
  missing group.\<close>

definition update_gamma :: "host \<Rightarrow> Global \<Rightarrow> 'a occlusion_scheme \<Rightarrow> bpy \<Rightarrow> py_error + bpy" where
  "update_gamma H G self b =
     (case data_node_groups b (OCCLUSION_NODE G) of
        None \<Rightarrow> Inl KeyError
      | Some t \<Rightarrow>
          (case set_input_default H ''Gamma'' 1 (PyFloat (occlusion.gamma self)) t of
             Inl e \<Rightarrow> Inl e
           | Inr t' \<Rightarrow> Inr (b\<lparr>data_node_groups := (data_node_groups b)(OCCLUSION_NODE G \<mapsto> t')\<rparr>)))"

definition update_distance :: "host \<Rightarrow> Global \<Rightarrow> 'a occlusion_scheme \<Rightarrow> bpy \<Rightarrow> py_error + bpy" where
  "update_distance H G self b =
     (case data_node_groups b (OCCLUSION_NODE G) of
        None \<Rightarrow> Inl KeyError
      | Some t \<Rightarrow>
          (case set_input_default H ''Ambient Occlusion'' 1 (PyFloat (occlusion.distance self)) t of
             Inl e \<Rightarrow> Inl e
           | Inr t' \<Rightarrow> Inr (b\<lparr>data_node_groups := (data_node_groups b)(OCCLUSION_NODE G \<mapsto> t')\<rparr>)))"

subsection \<open>Height\<close>

text \<open>
  \<open>Height.update_guide\<close>, the update callback of \<open>invert\<close> and \<open>distance\<close>.
  \<open>scene_setup\<close> belongs to a module that is not part of the sources at hand and is a
  parameter.  The check of \<open>preview_state\<close> is the last statement of the function: both
  of its branches return.
\<close>

definition update_guide ::
  "host \<Rightarrow> Global \<Rightarrow> (bpy \<Rightarrow> py_error + bpy) \<Rightarrow> 'a height_scheme \<Rightarrow> bpy \<Rightarrow> py_error + bpy" where
  "update_guide H G scene_setup self b =
     (case data_objects b (TRIM_CAMERA_NAME G) of
        None \<Rightarrow> Inl AttributeError
      | Some cam \<Rightarrow>
     (let gd_camera_ob_z = location_z cam in
      case data_node_groups b (HEIGHT_NODE G) of
        None \<Rightarrow> Inl KeyError
      | Some t \<Rightarrow>
     (case set_input_default H ''Map Range'' 1
             (PyFloat (gd_camera_ob_z + - height.distance self)) t of
        Inl e \<Rightarrow> Inl e
      | Inr t1 \<Rightarrow>
     (case set_input_default H ''Map Range'' 2 (PyFloat gd_camera_ob_z) t1 of
        Inl e \<Rightarrow> Inl e
      | Inr t2 \<Rightarrow>
     (case nodes_get t2 ''ColorRamp'' of
        None \<Rightarrow> Inl AttributeError
      | Some ramp \<Rightarrow>
     (let t3 = update_node ''ColorRamp''
                 (\<lambda>x. (set_attr ''color_ramp.elements[1].color''
                          (if invert self then ATuple [1, 1, 1, 1] else ATuple [0, 0, 0, 1])
                       (set_attr ''color_ramp.elements[0].color''
                          (if invert self then ATuple [0, 0, 0, 1] else ATuple [1, 1, 1, 1]) x))
                       \<lparr>location := (-400, 0)\<rparr>) t2;
          b1 = b\<lparr>data_node_groups := (data_node_groups b)(HEIGHT_NODE G \<mapsto> t3)\<rparr>
      in if height_method self = ''MANUAL'' then scene_setup b1 else Inr b1))))))"

subsection \<open>Initialisation and cleanup of a bake run\<close>

text \<open>The attributes \<open>baker_init\<close> stores on the operator (\<open>self\<close>).\<close>

record baker_op =
  savedViewLayerUse :: bool
  savedUseSingleLayer :: bool
  savedRenderer :: string
  savedWorkbenchSampling :: string
  savedWorkbenchVPSampling :: string
  savedEeveeRenderSampling :: int
  savedEeveeSampling :: int
  savedCyclesSampling :: int
  savedCyclesRenderSampling :: int
  savedUseBloom :: bool
  savedUseAO :: bool
  savedAODistance :: real
  savedAOQuality :: real
  savedDisplayDevice :: string
  savedViewTransform :: string
  savedContrastType :: string
  savedExposure :: real
  savedGamma :: real
  savedTransparency :: bool
  savedHQNormals :: bool
  savedFilterSize :: real
  savedFilterSizeCycles :: real
  savedFilterSizeTypeCycles :: string
  savedColorMode :: string
  savedFileFormat :: string
  savedColorDepth :: string
  savedUseSequencer :: bool
  savedUseCompositor :: bool
  savedDitherIntensity :: real
  savedLight :: string
  savedColorType :: string
  savedBackface :: bool
  savedXray :: bool
  savedShadows :: bool
  savedCavity :: bool
  savedDOF :: bool
  savedOutline :: bool
  savedShowSpec :: bool
  savedRefSelection :: "string option"

text \<open>\<open>bpy.app.version >= (2, 83, 0)\<close>: Python compares tuples lexicographically.\<close>

definition version_ge :: "nat \<times> nat \<times> nat \<Rightarrow> nat \<times> nat \<times> nat \<Rightarrow> bool" where
  "version_ge v w =
     (case (v, w) of ((a, b, c), (x, y, z)) \<Rightarrow>
        a > x \<or> (a = x \<and> (b > y \<or> (b = y \<and> c \<ge> z))))"

text \<open>The first space of every \<open>VIEW_3D\<close> area leaves the local camera.\<close>

definition clear_local_camera :: "area \<Rightarrow> area" where
  "clear_local_camera a =
     (if area.type a = ''VIEW_3D'' then
        (case spaces a of
           [] \<Rightarrow> a
         | sp # rest \<Rightarrow> a\<lparr>spaces := sp\<lparr>use_local_camera := False\<rparr> # rest\<rparr>)
      else a)"

text \<open>
  \<open>baker_init\<close>.  The statements are in the source's order; \<open>r\<close>, \<open>ee\<close>, \<open>cy\<close>, \<open>vs\<close>,
  \<open>im\<close> and \<open>sh\<close> are the settings objects \<open>scene.render\<close>, \<open>scene.eevee\<close>,
  \<open>scene.cycles\<close>, \<open>scene.view_settings\<close>, \<open>render.image_settings\<close> and
  \<open>scene.display.shading\<close> as the statements mutate them.  The background plane is
  looked up last, and a missing plane raises there.
\<close>

definition baker_init :: "Global \<Rightarrow> baker_op \<Rightarrow> bpy \<Rightarrow> py_error + (baker_op \<times> bpy)" where
  "baker_init G self b =
     (let sc = context_scene b;
          g = gd sc;
          areas = map clear_local_camera (context_screen_areas b);
          cam = (case data_objects b (TRIM_CAMERA_NAME G) of
                   None \<Rightarrow> None | Some _ \<Rightarrow> Some (TRIM_CAMERA_NAME G));
          r = render sc;
          self = self\<lparr>savedViewLayerUse := context_view_layer_use b,
                      savedUseSingleLayer := use_single_layer r\<rparr>;
          view_layer_use = True;
          r = r\<lparr>use_single_layer := True\<rparr>;
          w = map_option (\<lambda>w. w\<lparr>world.use_nodes := False\<rparr>) (world sc);
          ee = eevee sc;
          cy = cycles sc;
          self = self\<lparr>savedRenderer := render.engine r,
                      savedWorkbenchSampling := render_aa (display sc),
                      savedWorkbenchVPSampling := viewport_aa (display sc),
                      savedEeveeRenderSampling := taa_render_samples ee,
                      savedEeveeSampling := taa_samples ee,
                      savedCyclesSampling := preview_samples cy,
                      savedCyclesRenderSampling := cycles.samples cy,
                      savedUseBloom := use_bloom ee\<rparr>;
          ee = ee\<lparr>use_bloom := False\<rparr>;
          self = self\<lparr>savedUseAO := use_gtao ee,
                      savedAODistance := gtao_distance ee,
                      savedAOQuality := gtao_quality ee\<rparr>;
          ee = ee\<lparr>use_gtao := False, gtao_distance := 0.2, gtao_quality := 0.5\<rparr>;
          vs = view_settings sc;
          self = self\<lparr>savedDisplayDevice := display_device (display_settings sc),
                      savedViewTransform := view_transform vs,
                      savedContrastType := look vs,
                      savedExposure := exposure vs,
                      savedGamma := view_settings.gamma vs,
                      savedTransparency := film_transparent r\<rparr>;
          hq = version_ge (app_version b) (2, 83, 0);
          self = (if hq then self\<lparr>savedHQNormals := use_high_quality_normals r\<rparr> else self);
          r = (if hq then r\<lparr>use_high_quality_normals := True\<rparr> else r);
          self = self\<lparr>savedFilterSize := filter_size r,
                      savedFilterSizeCycles := cycles.filter_width cy,
                      savedFilterSizeTypeCycles := pixel_filter_type cy\<rparr>;
          r = r\<lparr>filter_size := gd.filter_width g\<rparr>;
          cy = cy\<lparr>cycles.filter_width := gd.filter_width g,
                  pixel_filter_type := ''BLACKMAN_HARRIS''\<rparr>;
          r = r\<lparr>render.resolution_x := gd.resolution_x g,
                render.resolution_y := gd.resolution_y g,
                resolution_percentage := 100\<rparr>;
          im = image_settings r;
          self = self\<lparr>savedColorMode := color_mode im,
                      savedFileFormat := file_format im,
                      savedColorDepth := color_depth im\<rparr>;
          r = (if \<not> coll_rendered g then r\<lparr>film_transparent := True\<rparr> else r);
          im = (if \<not> coll_rendered g then im\<lparr>color_mode := ''RGBA''\<rparr>
                else im\<lparr>color_mode := ''RGB''\<rparr>);
          im = im\<lparr>file_format := format g\<rparr>;
          im = (if format g = ''OPEN_EXR'' then im\<lparr>color_depth := exr_depth g\<rparr>
                else if format g \<noteq> ''TARGA'' then im\<lparr>color_depth := depth g\<rparr>
                else im);
          im = (if format g = ''PNG'' then im\<lparr>compression := png_compression g\<rparr> else im);
          self = self\<lparr>savedUseSequencer := use_sequencer r,
                      savedUseCompositor := use_compositing r,
                      savedDitherIntensity := dither_intensity r\<rparr>;
          r = r\<lparr>use_compositing := False, use_sequencer := False, dither_intensity := 0\<rparr>;
          sh = shading (display sc);
          self = self\<lparr>savedLight := light sh,
                      savedColorType := color_type sh,
                      savedBackface := show_backface_culling sh,
                      savedXray := show_xray sh,
                      savedShadows := show_shadows sh,
                      savedCavity := show_cavity sh,
                      savedDOF := use_dof sh,
                      savedOutline := show_object_outline sh,
                      savedShowSpec := show_specular_highlight sh\<rparr>;
          sh = sh\<lparr>show_backface_culling := False, show_xray := False, show_shadows := False,
                  show_cavity := False, use_dof := False, show_object_outline := False,
                  show_specular_highlight := False\<rparr>;
          self = self\<lparr>savedRefSelection := reference g\<rparr>
      in case data_objects b (BG_PLANE_NAME G) of
           None \<Rightarrow> Inl AttributeError
         | Some bg_plane \<Rightarrow>
             Inr (self,
                  b\<lparr>context_scene :=
                       sc\<lparr>render := r\<lparr>image_settings := im\<rparr>, eevee := ee, cycles := cy,
                          display := (display sc)\<lparr>shading := sh\<rparr>, world := w, camera := cam\<rparr>,
                     context_view_layer_use := view_layer_use,
                     context_screen_areas := areas,
                     data_objects := (data_objects b)(BG_PLANE_NAME G \<mapsto>
                       bg_plane\<lparr>hide_viewport := \<not> coll_visible g,
                                hide_render := \<not> coll_rendered g,
                                hidden := False\<rparr>)\<rparr>))"

text \<open>
  \<open>baker_cleanup\<close>, in the source's order.  In the sampling block the two statements
  for Cycles assign to \<open>self\<close>, not to the scene.  \<open>bpy.data.images[name]\<close> raises
  \<open>KeyError\<close> for a missing image; an empty selection is falsy.
\<close>

definition baker_cleanup :: "baker_op \<Rightarrow> bpy \<Rightarrow> py_error + (baker_op \<times> bpy)" where
  "baker_cleanup self b =
     (let sc = context_scene b;
          g = gd sc;
          view_layer_use = savedViewLayerUse self;
          r = (render sc)\<lparr>use_single_layer := savedUseSingleLayer self\<rparr>;
          w = map_option (\<lambda>w. w\<lparr>world.use_nodes := True\<rparr>) (world sc);
          r = r\<lparr>render.engine := savedRenderer self\<rparr>;
          dp = (display sc)\<lparr>render_aa := savedWorkbenchSampling self,
                             viewport_aa := savedWorkbenchVPSampling self\<rparr>;
          ee = (eevee sc)\<lparr>taa_render_samples := savedEeveeRenderSampling self,
                           taa_samples := savedEeveeSampling self\<rparr>;
          cy = cycles sc;
          self = self\<lparr>savedCyclesSampling := preview_samples cy,
                      savedCyclesRenderSampling := cycles.samples cy\<rparr>;
          ee = ee\<lparr>use_bloom := savedUseBloom self\<rparr>;
          ee = ee\<lparr>use_gtao := savedUseAO self,
                  gtao_distance := savedAODistance self,
                  gtao_quality := savedAOQuality self\<rparr>;
          vs = (view_settings sc)\<lparr>look := savedContrastType self\<rparr>;
          ds = (display_settings sc)\<lparr>display_device := savedDisplayDevice self\<rparr>;
          vs = vs\<lparr>view_transform := savedViewTransform self,
                  exposure := savedExposure self,
                  view_settings.gamma := savedGamma self\<rparr>;
          r = r\<lparr>film_transparent := savedTransparency self\<rparr>;
          r = (if version_ge (app_version b) (2, 83, 0)
               then r\<lparr>use_high_quality_normals := savedHQNormals self\<rparr> else r);
          r = r\<lparr>filter_size := savedFilterSize self\<rparr>;
          cy = cy\<lparr>cycles.filter_width := savedFilterSizeCycles self,
                  pixel_filter_type := savedFilterSizeTypeCycles self\<rparr>;
          im = (image_settings r)\<lparr>color_depth := savedColorDepth self,
                                  color_mode := savedColorMode self,
                                  file_format := savedFileFormat self\<rparr>;
          r = r\<lparr>use_sequencer := savedUseSequencer self,
                use_compositing := savedUseCompositor self,
                dither_intensity := savedDitherIntensity self\<rparr>;
          sh = (shading dp)\<lparr>show_cavity := savedCavity self,
                            color_type := savedColorType self,
                            show_backface_culling := savedBackface self,
                            show_xray := savedXray self,
                            show_shadows := savedShadows self,
                            use_dof := savedDOF self,
                            show_object_outline := savedOutline self,
                            show_specular_highlight := savedShowSpec self,
                            light := savedLight self\<rparr>;
          b' = b\<lparr>context_scene :=
                    sc\<lparr>render := r\<lparr>image_settings := im\<rparr>, eevee := ee, cycles := cy,
                       display := dp\<lparr>shading := sh\<rparr>, view_settings := vs,
                       display_settings := ds, world := w\<rparr>,
                  context_view_layer_use := view_layer_use\<rparr>
      in case savedRefSelection self of
           None \<Rightarrow> Inr (self, b')
         | Some ref \<Rightarrow>
             if ref = [] then Inr (self, b')
             else if ref \<in> set (data_images b) then
               Inr (self, b'\<lparr>context_scene :=
                             (context_scene b')\<lparr>gd := (gd (context_scene b'))\<lparr>reference := Some ref\<rparr>\<rparr>\<rparr>)
             else Inl KeyError)"

text \<open>
  A bake run over maps that inherit \<open>Baker.setup\<close> and \<open>Baker.cleanup\<close>: the global
  initialisation, then for every map its setup, the render (which reads the settings and
  leaves them as they are) and its cleanup, then the global cleanup.
\<close>

fun bake_each :: "'a baker_scheme list \<Rightarrow> scene \<Rightarrow> scene" where
  "bake_each [] sc = sc"
| "bake_each (m # ms) sc = bake_each ms (Baker_cleanup m (Baker_setup m sc))"

definition bake_run ::
  "Global \<Rightarrow> 'a baker_scheme list \<Rightarrow> baker_op \<Rightarrow> bpy \<Rightarrow> py_error + (baker_op \<times> bpy)" where
  "bake_run G maps self b =
     (case baker_init G self b of
        Inl e \<Rightarrow> Inl e
      | Inr (self1, b1) \<Rightarrow>
          baker_cleanup self1 (b1\<lparr>context_scene := bake_each maps (context_scene b1)\<rparr>))"

section \<open>Node groups and materials (utils/node.py)\<close>

subsection \<open>Sockets, links and nodes of a tree\<close>

text \<open>\<open>sockets[name]\<close> is the first socket of that name and raises \<open>KeyError\<close> when
  there is none; \<open>sockets[i]\<close> raises \<open>IndexError\<close> out of range.\<close>

fun socket_index :: "socket list \<Rightarrow> string \<Rightarrow> nat option" where
  "socket_index [] n = None"
| "socket_index (s # ss) n =
     (if socket.name s = n then Some 0 else map_option Suc (socket_index ss n))"

datatype sockref = ByName string | ByIndex nat

fun resolve :: "socket list \<Rightarrow> sockref \<Rightarrow> py_error + nat" where
  "resolve ss (ByName n) = (case socket_index ss n of None \<Rightarrow> Inl KeyError | Some i \<Rightarrow> Inr i)"
| "resolve ss (ByIndex i) = (if i < length ss then Inr i else Inl IndexError)"

text \<open>\<open>socket.links\<close> of an input and of an output socket: a tuple made when it is read.\<close>

definition input_links :: "node_tree \<Rightarrow> string \<Rightarrow> nat \<Rightarrow> link list" where
  "input_links t n i = filter (\<lambda>l. to_node l = n \<and> to_socket l = i) (links t)"

definition output_links :: "node_tree \<Rightarrow> string \<Rightarrow> nat \<Rightarrow> link list" where
  "output_links t n i = filter (\<lambda>l. from_node l = n \<and> from_socket l = i) (links t)"

text \<open>\<open>links.new(input, output)\<close>: an input socket takes one link, so a link that
  already ends there is replaced.\<close>

definition links_new :: "string \<times> nat \<Rightarrow> string \<times> nat \<Rightarrow> node_tree \<Rightarrow> node_tree" where
  "links_new inp out t =
     t\<lparr>links := filter (\<lambda>l. \<not> (to_node l = fst inp \<and> to_socket l = snd inp)) (links t) @
                 [\<lparr>from_node = fst out, from_socket = snd out,
                   to_node = fst inp, to_socket = snd inp\<rparr>]\<rparr>"

definition links_remove :: "link \<Rightarrow> node_tree \<Rightarrow> node_tree" where
  "links_remove l t = t\<lparr>links := filter (\<lambda>x. x \<noteq> l) (links t)\<rparr>"

text \<open>\<open>nodes.remove(node)\<close> takes the node's links with it.\<close>

definition nodes_remove :: "string \<Rightarrow> node_tree \<Rightarrow> node_tree" where
  "nodes_remove n t =
     t\<lparr>nodes := filter (\<lambda>x. node.name x \<noteq> n) (nodes t),
        links := filter (\<lambda>l. from_node l \<noteq> n \<and> to_node l \<noteq> n) (links t)\<rparr>"

text \<open>The sockets that a group's interface gives to the nodes that show it: the type of
  a socket is named by the item's \<open>socket_type\<close>.\<close>

definition socket_enum :: "string \<Rightarrow> string" where
  "socket_enum idname =
     (case map_of [(''NodeSocketFloat'', ''VALUE''), (''NodeSocketInt'', ''INT''),
                   (''NodeSocketVector'', ''VECTOR''), (''NodeSocketColor'', ''RGBA''),
                   (''NodeSocketShader'', ''SHADER''), (''NodeSocketBool'', ''BOOLEAN'')] idname of
        Some ty \<Rightarrow> ty | None \<Rightarrow> ''CUSTOM'')"

definition interface_sockets :: "string \<Rightarrow> node_tree \<Rightarrow> socket list" where
  "interface_sockets io g =
     map (\<lambda>i. \<lparr>socket.name = interface_socket.name i,
                socket.type = socket_enum (socket_type i),
                socket.default_value = interface_socket.default_value i\<rparr>)
         (filter (\<lambda>i. in_out i = io) (interface g))"

text \<open>
  \<open>nodes.new(idname)\<close>: the host's node under a name that is unique in the tree; an
  unknown \<open>idname\<close> raises.  A group input node shows the interface's inputs as its
  outputs, a group output node the interface's outputs as its inputs.  The result names
  the new node.
\<close>

definition nodes_new :: "host \<Rightarrow> string \<Rightarrow> node_tree \<Rightarrow> py_error + (string \<times> node_tree)" where
  "nodes_new H idname t =
     (case new_node H idname of
        None \<Rightarrow> Inl RuntimeError
      | Some x \<Rightarrow>
          (let x = (if idname = ''NodeGroupInput''
                    then x\<lparr>outputs := interface_sockets ''INPUT'' t\<rparr>
                    else if idname = ''NodeGroupOutput''
                    then x\<lparr>inputs := interface_sockets ''OUTPUT'' t\<rparr>
                    else x);
               n = unique_name H (node_names t) (node.name x)
           in Inr (n, t\<lparr>nodes := nodes t @ [x\<lparr>node.name := n\<rparr>]\<rparr>)))"

text \<open>\<open>node.name = wanted\<close>: the host keeps the names of a tree unique, and the links
  follow the node.  The result is the name the node has afterwards.\<close>

definition rename_node :: "host \<Rightarrow> string \<Rightarrow> string \<Rightarrow> node_tree \<Rightarrow> string \<times> node_tree" where
  "rename_node H old wanted t =
     (let n = unique_name H (filter (\<lambda>k. k \<noteq> old) (node_names t)) wanted
      in (n, t\<lparr>nodes := map (\<lambda>x. if node.name x = old then x\<lparr>node.name := n\<rparr> else x) (nodes t),
                links := map (\<lambda>l. l\<lparr>from_node := (if from_node l = old then n else from_node l),
                                     to_node := (if to_node l = old then n else to_node l)\<rparr>)
                             (links t)\<rparr>))"

text \<open>\<open>group_node.node_tree = group\<close>: the node shows the group's interface.\<close>

definition set_node_tree :: "string \<Rightarrow> (string \<times> node_tree) option \<Rightarrow> node_tree \<Rightarrow> node_tree" where
  "set_node_tree n grp t =
     update_node n
       (\<lambda>x. case grp of
               None \<Rightarrow> x\<lparr>node.node_tree := None, inputs := [], outputs := []\<rparr>
             | Some (gname, g) \<Rightarrow>
                 x\<lparr>node.node_tree := Some gname,
                   inputs := interface_sockets ''INPUT'' g,
                   outputs := interface_sockets ''OUTPUT'' g\<rparr>) t"

subsection \<open>The interface of a recipe\<close>

definition empty_tree :: node_tree where
  "empty_tree = \<lparr>nodes = [], links = [], interface = [], panels = [], use_fake_user = False\<rparr>"

definition new_socket ::
  "string \<Rightarrow> string \<Rightarrow> string \<Rightarrow> string option \<Rightarrow> pyval option \<Rightarrow> node_tree \<Rightarrow> node_tree" where
  "new_socket nm ty io par dv t =
     t\<lparr>interface := interface t @
          [\<lparr>interface_socket.name = nm, socket_type = ty, in_out = io, parent = par,
            interface_socket.default_value = dv\<rparr>]\<rparr>"

fun saved_link_sockets :: "(string \<times> string) list \<Rightarrow> node_tree \<Rightarrow> node_tree" where
  "saved_link_sockets [] t = t"
| "saved_link_sockets ((nm, ty) # rest) t =
     saved_link_sockets rest (new_socket nm ty ''INPUT'' (Some ''Saved Links'') None t)"

definition generate_shader_interface :: "(string \<times> string) list \<Rightarrow> node_tree \<Rightarrow> node_tree" where
  "generate_shader_interface inputs_dict t =
     saved_link_sockets inputs_dict
       ((new_socket ''Shader'' ''NodeSocketShader'' ''OUTPUT'' None None t)
          \<lparr>panels := panels t @ [''Saved Links'']\<rparr>)"

text \<open>
  \<open>get_material_output_inputs\<close>.  The dictionary is a list of pairs: assigning to a key
  that is present replaces its value in place.  The scratch group the function makes is
  removed before it returns and is not entered into the document here.
  \<open>str.capitalize\<close> puts the first character in upper case and the rest in lower case.
\<close>

definition lower :: "string \<Rightarrow> string" where
  "lower s = map (\<lambda>c. case map_of (zip ''ABCDEFGHIJKLMNOPQRSTUVWXYZ''
                                              ''abcdefghijklmnopqrstuvwxyz'') c of
                          Some u \<Rightarrow> u | None \<Rightarrow> c) s"

definition capitalize :: "string \<Rightarrow> string" where
  "capitalize s = (case s of [] \<Rightarrow> [] | c # cs \<Rightarrow> upper [c] @ lower cs)"

definition dict_set :: "'k \<Rightarrow> 'v \<Rightarrow> ('k \<times> 'v) list \<Rightarrow> ('k \<times> 'v) list" where
  "dict_set k v d =
     (if k \<in> fst ` set d then map (\<lambda>p. if fst p = k then (k, v) else p) d else d @ [(k, v)])"

fun material_output_inputs :: "socket list \<Rightarrow> (string \<times> string) list \<Rightarrow> (string \<times> string) list" where
  "material_output_inputs [] d = d"
| "material_output_inputs (node_input # rest) d =
     (if socket.name node_input = ''Thickness'' then material_output_inputs rest d
      else material_output_inputs rest
             (dict_set (socket.name node_input)
                (''NodeSocket'' @ capitalize (socket.type node_input)) d))"

definition get_material_output_inputs :: "host \<Rightarrow> py_error + (string \<times> string) list" where
  "get_material_output_inputs H =
     (case nodes_new H ''ShaderNodeOutputMaterial'' empty_tree of
        Inl e \<Rightarrow> Inl e
      | Inr (out, tree) \<Rightarrow>
          (case nodes_get tree out of
             None \<Rightarrow> Inl AttributeError
           | Some output \<Rightarrow> Inr (material_output_inputs (inputs output) [])))"

subsection \<open>The statements that build a recipe\<close>

text \<open>
  The body of a recipe is straight-line code over local variables that hold nodes.  Each
  statement is one of the following; a variable is bound to the name its node has in the
  tree.  \<open>Raise\<close> stands where the evaluation of a statement's right-hand side raises
  before the tree is touched.
  \<^item> \<open>New v idname\<close>: \<open>v = tree.nodes.new(idname)\<close>
  \<^item> \<open>SetName v s\<close>: \<open>v.name = s\<close>
  \<^item> \<open>SetLocation v x y\<close>: \<open>v.location = (x, y)\<close>
  \<^item> \<open>SetAttr v k a\<close>: \<open>v.k = a\<close> for any other attribute
  \<^item> \<open>SetInput v r x\<close>: \<open>v.inputs[r].default_value = x\<close>
  \<^item> \<open>SetInputComponent v i k x\<close>: \<open>v.inputs[i].default_value[k] = x\<close>
  \<^item> \<open>Link v r w q\<close>: \<open>links.new(v.inputs[r], w.outputs[q])\<close>
\<close>

datatype step =
    New string string
  | SetName string string
  | SetLocation string real real
  | SetAttr string string attr
  | SetInput string sockref pyval
  | SetInputComponent string nat nat real
  | Link string sockref string sockref
  | Raise py_error

type_synonym build_state = "(string \<times> string) list \<times> node_tree"

definition the_node :: "build_state \<Rightarrow> string \<Rightarrow> py_error + node" where
  "the_node st v =
     (case map_of (fst st) v of
        None \<Rightarrow> Inl NameError
      | Some n \<Rightarrow> (case nodes_get (snd st) n of None \<Rightarrow> Inl AttributeError | Some x \<Rightarrow> Inr x))"

fun run_step :: "host \<Rightarrow> step \<Rightarrow> build_state \<Rightarrow> py_error + build_state" where
  "run_step H (New v idname) (env, t) =
     (case nodes_new H idname t of
        Inl e \<Rightarrow> Inl e
      | Inr (n, t') \<Rightarrow> Inr ((v, n) # env, t'))"
| "run_step H (SetName v s) (env, t) =
     (case the_node (env, t) v of
        Inl e \<Rightarrow> Inl e
      | Inr x \<Rightarrow> (case rename_node H (node.name x) s t of (n, t') \<Rightarrow> Inr ((v, n) # env, t')))"
| "run_step H (SetLocation v x y) (env, t) =
     (case the_node (env, t) v of
        Inl e \<Rightarrow> Inl e
      | Inr n \<Rightarrow> Inr (env, update_node (node.name n) (\<lambda>z. z\<lparr>location := (x, y)\<rparr>) t))"
| "run_step H (SetAttr v k a) (env, t) =
     (case the_node (env, t) v of
        Inl e \<Rightarrow> Inl e
      | Inr n \<Rightarrow> Inr (env, update_node (node.name n) (set_attr k a) t))"
| "run_step H (SetInput v r x) (env, t) =
     (case the_node (env, t) v of
        Inl e \<Rightarrow> Inl e
      | Inr n \<Rightarrow>
          (case resolve (inputs n) r of
             Inl e \<Rightarrow> Inl e
           | Inr i \<Rightarrow>
               (case set_input_default H (node.name n) i x t of
                  Inl e \<Rightarrow> Inl e
                | Inr t' \<Rightarrow> Inr (env, t'))))"
| "run_step H (SetInputComponent v i k x) (env, t) =
     (case the_node (env, t) v of
        Inl e \<Rightarrow> Inl e
      | Inr n \<Rightarrow>
          if i < length (inputs n) then
            (case socket.default_value (inputs n ! i) of
               Some (PyTuple xs) \<Rightarrow>
                 if k < length xs then
                   Inr (env, update_node (node.name n)
                          (\<lambda>z. z\<lparr>inputs := (inputs z)
                                  [i := (inputs z ! i)
                                     \<lparr>socket.default_value := Some (PyTuple (xs[k := x]))\<rparr>]\<rparr>) t)
                 else Inl IndexError
             | Some _ \<Rightarrow> Inl TypeError
             | None \<Rightarrow> Inl AttributeError)
          else Inl IndexError)"
| "run_step H (Link v r w q) (env, t) =
     (case the_node (env, t) v of
        Inl e \<Rightarrow> Inl e
      | Inr a \<Rightarrow>
          (case resolve (inputs a) r of
             Inl e \<Rightarrow> Inl e
           | Inr i \<Rightarrow>
               (case the_node (env, t) w of
                  Inl e \<Rightarrow> Inl e
                | Inr b \<Rightarrow>
                    (case resolve (outputs b) q of
                       Inl e \<Rightarrow> Inl e
                     | Inr j \<Rightarrow> Inr (env, links_new (node.name a, i) (node.name b, j) t)))))"
| "run_step H (Raise e) (env, t) = Inl e"

fun run_steps :: "host \<Rightarrow> step list \<Rightarrow> build_state \<Rightarrow> py_error + build_state" where
  "run_steps H [] st = Inr st"
| "run_steps H (s # ss) st =
     (case run_step H s st of Inl e \<Rightarrow> Inl e | Inr st' \<Rightarrow> run_steps H ss st')"

text \<open>\<open>bpy.data.node_groups.new(name, 'ShaderNodeTree')\<close> with \<open>use_fake_user\<close> set, the
  interface and then the body.\<close>

definition build_group ::
  "host \<Rightarrow> (node_tree \<Rightarrow> node_tree) \<Rightarrow> step list \<Rightarrow> py_error + node_tree" where
  "build_group H iface body =
     (case run_steps H body ([], iface (empty_tree\<lparr>use_fake_user := True\<rparr>)) of
        Inl e \<Rightarrow> Inl e
      | Inr (env, t) \<Rightarrow> Inr t)"

subsection \<open>The recipes of \<open>node_init\<close>\<close>

text \<open>
  Each recipe is the interface and the body of one \<open>if not ... in bpy.data.node_groups\<close>
  block, statement by statement.  \<open>flip\<close> is \<open>gd.normals[0].flip_y\<close>, \<open>gamma0\<close> is
  \<open>gd.occlusion[0].gamma\<close> and \<open>camera_z\<close> is the height of the trim camera; each is an
  exception when its evaluation raises (an empty collection, a missing object).
\<close>

definition normal_interface :: "(string \<times> string) list \<Rightarrow> node_tree \<Rightarrow> node_tree" where
  "normal_interface inputs_dict t =
     new_socket ''Normal'' ''NodeSocketVector'' ''INPUT'' None None
       (new_socket ''Alpha'' ''NodeSocketFloat'' ''INPUT'' None (Some (PyInt 1))
          (generate_shader_interface inputs_dict t))"

definition normal_body :: "py_error + bool \<Rightarrow> step list" where
  "normal_body flip =
     [New ''group_output'' ''NodeGroupOutput'',
      SetName ''group_output'' ''Group Output'',
      New ''group_input'' ''NodeGroupInput'',
      SetName ''group_input'' ''Group Input'',
      SetLocation ''group_input'' (-1400) 100,
      New ''bevel'' ''ShaderNodeBevel'',
      SetName ''bevel'' ''Bevel'',
      SetInput ''bevel'' (ByIndex 0) (PyInt 0),
      SetLocation ''bevel'' (-1000) 0,
      New ''bevel_2'' ''ShaderNodeBevel'',
      SetName ''bevel_2'' ''Bevel.001'',
      SetLocation ''bevel_2'' (-1000) (-200),
      SetInput ''bevel_2'' (ByIndex 0) (PyInt 0),
      New ''vec_transform'' ''ShaderNodeVectorTransform'',
      SetName ''vec_transform'' ''Vector Transform'',
      SetAttr ''vec_transform'' ''vector_type'' (AStr ''NORMAL''),
      SetAttr ''vec_transform'' ''convert_to'' (AStr ''CAMERA''),
      SetLocation ''vec_transform'' (-800) 0,
      New ''vec_mult'' ''ShaderNodeVectorMath'',
      SetName ''vec_mult'' ''Vector Math'',
      SetAttr ''vec_mult'' ''operation'' (AStr ''MULTIPLY''),
      SetInputComponent ''vec_mult'' 1 0 0.5,
      (case flip of
         Inl e \<Rightarrow> Raise e
       | Inr f \<Rightarrow> SetInputComponent ''vec_mult'' 1 1 (if f then - 0.5 else 0.5)),
      SetInputComponent ''vec_mult'' 1 2 (- 0.5),
      SetLocation ''vec_mult'' (-600) 0,
      New ''vec_add'' ''ShaderNodeVectorMath'',
      SetName ''vec_add'' ''Vector Math.001'',
      SetInputComponent ''vec_add'' 1 0 0.5,
      SetInputComponent ''vec_add'' 1 1 0.5,
      SetInputComponent ''vec_add'' 1 2 0.5,
      SetLocation ''vec_add'' (-400) 0,
      New ''invert'' ''ShaderNodeInvert'',
      SetName ''invert'' ''Invert'',
      SetLocation ''invert'' (-1000) 200,
      New ''subtract'' ''ShaderNodeMixRGB'',
      SetAttr ''subtract'' ''blend_type'' (AStr ''SUBTRACT''),
      SetName ''subtract'' ''Subtract'',
      SetInput ''subtract'' (ByIndex 0) (PyInt 1),
      SetInput ''subtract'' (ByIndex 1) (PyTuple [1, 1, 1, 1]),
      SetLocation ''subtract'' (-800) 300,
      New ''transp_shader'' ''ShaderNodeBsdfTransparent'',
      SetName ''transp_shader'' ''Transparent BSDF'',
      SetLocation ''transp_shader'' (-400) 200,
      New ''mix_shader'' ''ShaderNodeMixShader'',
      SetName ''mix_shader'' ''Mix Shader'',
      SetLocation ''mix_shader'' (-200) 300,
      Link ''bevel'' (ByName ''Normal'') ''group_input'' (ByName ''Normal''),
      Link ''vec_transform'' (ByName ''Vector'') ''bevel_2'' (ByName ''Normal''),
      Link ''vec_mult'' (ByName ''Vector'') ''vec_transform'' (ByName ''Vector''),
      Link ''vec_add'' (ByName ''Vector'') ''vec_mult'' (ByName ''Vector''),
      Link ''group_output'' (ByName ''Shader'') ''vec_add'' (ByName ''Vector''),
      Link ''invert'' (ByName ''Color'') ''group_input'' (ByName ''Alpha''),
      Link ''subtract'' (ByName ''Color2'') ''invert'' (ByName ''Color''),
      Link ''mix_shader'' (ByName ''Fac'') ''subtract'' (ByName ''Color''),
      Link ''mix_shader'' (ByIndex 1) ''transp_shader'' (ByName ''BSDF''),
      Link ''mix_shader'' (ByIndex 2) ''vec_add'' (ByName ''Vector'')]"

text \<open>In the curvature recipe \<open>color_ramp.color_ramp.elements.new(.5)\<close> is a call; it
  is recorded like the attribute assignments after it.\<close>

definition curvature_body :: "step list" where
  "curvature_body =
     [New ''group_output'' ''NodeGroupOutput'',
      SetName ''group_output'' ''Group Output'',
      New ''geometry'' ''ShaderNodeNewGeometry'',
      SetLocation ''geometry'' (-800) 0,
      New ''color_ramp'' ''ShaderNodeValToRGB'',
      SetAttr ''color_ramp'' ''color_ramp.elements.new'' (ANum 0.5),
      SetAttr ''color_ramp'' ''color_ramp.elements[0].position'' (ANum 0.49),
      SetAttr ''color_ramp'' ''color_ramp.elements[2].position'' (ANum 0.51),
      SetLocation ''color_ramp'' (-600) 0,
      New ''emission'' ''ShaderNodeEmission'',
      SetName ''emission'' ''Emission'',
      SetLocation ''emission'' (-200) 0,
      Link ''color_ramp'' (ByName ''Fac'') ''geometry'' (ByName ''Pointiness''),
      Link ''emission'' (ByName ''Color'') ''color_ramp'' (ByName ''Color''),
      Link ''group_output'' (ByName ''Shader'') ''emission'' (ByName ''Emission'')]"

definition occlusion_interface :: "(string \<times> string) list \<Rightarrow> node_tree \<Rightarrow> node_tree" where
  "occlusion_interface inputs_dict t =
     new_socket ''Normal'' ''NodeSocketVector'' ''INPUT'' None (Some (PyTuple [0.5, 0.5, 1]))
       (new_socket ''Alpha'' ''NodeSocketFloat'' ''INPUT'' None (Some (PyInt 1))
          (generate_shader_interface inputs_dict t))"

definition occlusion_body :: "py_error + real \<Rightarrow> step list" where
  "occlusion_body gamma0 =
     [New ''group_input'' ''NodeGroupInput'',
      SetName ''group_input'' ''Group Input'',
      SetLocation ''group_input'' (-1000) 0,
      New ''group_output'' ''NodeGroupOutput'',
      SetName ''group_output'' ''Group Output'',
      New ''ao'' ''ShaderNodeAmbientOcclusion'',
      SetName ''ao'' ''Ambient Occlusion'',
      SetAttr ''ao'' ''samples'' (ANum 32),
      SetLocation ''ao'' (-600) 0,
      New ''gamma'' ''ShaderNodeGamma'',
      SetName ''gamma'' ''Gamma'',
      (case gamma0 of
         Inl e \<Rightarrow> Raise e
       | Inr x \<Rightarrow> SetInput ''gamma'' (ByIndex 1) (PyFloat x)),
      SetLocation ''gamma'' (-400) 0,
      New ''emission'' ''ShaderNodeEmission'',
      SetName ''emission'' ''Emission'',
      SetLocation ''emission'' (-200) 0,
      Link ''ao'' (ByName ''Normal'') ''group_input'' (ByName ''Normal''),
      Link ''gamma'' (ByName ''Color'') ''ao'' (ByName ''Color''),
      Link ''emission'' (ByName ''Color'') ''gamma'' (ByName ''Color''),
      Link ''group_output'' (ByName ''Shader'') ''emission'' (ByName ''Emission'')]"

definition height_body :: "step list" where
  "height_body =
     [New ''group_output'' ''NodeGroupOutput'',
      SetName ''group_output'' ''Group Output'',
      New ''camera'' ''ShaderNodeCameraData'',
      SetName ''camera'' ''Camera Data'',
      SetLocation ''camera'' (-800) 0,
      New ''map_range'' ''ShaderNodeMapRange'',
      SetName ''map_range'' ''Map Range'',
      SetLocation ''map_range'' (-600) 0,
      New ''ramp'' ''ShaderNodeValToRGB'',
      SetName ''ramp'' ''ColorRamp'',
      SetAttr ''ramp'' ''color_ramp.elements[0].color'' (ATuple [1, 1, 1, 1]),
      SetAttr ''ramp'' ''color_ramp.elements[1].color'' (ATuple [0, 0, 0, 1]),
      SetLocation ''ramp'' (-400) 0,
      Link ''map_range'' (ByName ''Value'') ''camera'' (ByName ''View Z Depth''),
      Link ''ramp'' (ByName ''Fac'') ''map_range'' (ByName ''Result''),
      Link ''group_output'' (ByName ''Shader'') ''ramp'' (ByName ''Color'')]"

definition alpha_interface :: "Global \<Rightarrow> (string \<times> string) list \<Rightarrow> node_tree \<Rightarrow> node_tree" where
  "alpha_interface G inputs_dict t =
     new_socket (ALPHA_NAME G) ''NodeSocketFloat'' ''INPUT'' None (Some (PyInt 1))
       (generate_shader_interface inputs_dict t)"

definition alpha_body :: "py_error + real \<Rightarrow> step list" where
  "alpha_body camera_z =
     [New ''group_output'' ''NodeGroupOutput'',
      SetName ''group_output'' ''Group Output'',
      New ''group_input'' ''NodeGroupInput'',
      SetName ''group_input'' ''Group Input'',
      SetLocation ''group_input'' (-1000) 200,
      New ''camera'' ''ShaderNodeCameraData'',
      SetName ''camera'' ''Camera Data'',
      SetLocation ''camera'' (-1000) 0] @
     (case camera_z of
        Inl e \<Rightarrow> [Raise e]
      | Inr camera_object_z \<Rightarrow>
          [New ''map_range'' ''ShaderNodeMapRange'',
           SetName ''map_range'' ''Map Range'',
           SetLocation ''map_range'' (-800) 0,
           SetInput ''map_range'' (ByIndex 1) (PyFloat (camera_object_z - 0.00001)),
           SetInput ''map_range'' (ByIndex 2) (PyFloat camera_object_z),
           New ''invert_mask'' ''ShaderNodeInvert'',
           SetName ''invert_mask'' ''Invert Mask'',
           SetLocation ''invert_mask'' (-600) 200,
           New ''invert_depth'' ''ShaderNodeInvert'',
           SetName ''invert_depth'' ''Invert Depth'',
           SetLocation ''invert_depth'' (-600) 0,
           New ''mix'' ''ShaderNodeMix'',
           SetName ''mix'' ''Invert Mask'',
           SetAttr ''mix'' ''data_type'' (AStr ''RGBA''),
           SetInput ''mix'' (ByName ''B'') (PyTuple [0, 0, 0, 1]),
           SetLocation ''mix'' (-400) 0,
           New ''emission'' ''ShaderNodeEmission'',
           SetName ''emission'' ''Emission'',
           SetLocation ''emission'' (-200) 0,
           Link ''invert_mask'' (ByName ''Color'') ''group_input'' (ByName ''Alpha''),
           Link ''mix'' (ByName ''Factor'') ''invert_mask'' (ByName ''Color''),
           Link ''map_range'' (ByName ''Value'') ''camera'' (ByName ''View Z Depth''),
           Link ''invert_depth'' (ByName ''Color'') ''map_range'' (ByName ''Result''),
           Link ''mix'' (ByName ''A'') ''invert_depth'' (ByName ''Color''),
           Link ''emission'' (ByName ''Color'') ''mix'' (ByName ''Result''),
           Link ''group_output'' (ByName ''Shader'') ''emission'' (ByName ''Emission'')])"

definition color_interface :: "Global \<Rightarrow> (string \<times> string) list \<Rightarrow> node_tree \<Rightarrow> node_tree" where
  "color_interface G inputs_dict t =
     new_socket (COLOR_NAME G) ''NodeSocketColor'' ''INPUT'' None None
       (generate_shader_interface inputs_dict t)"

definition color_body :: "step list" where
  "color_body =
     [New ''group_output'' ''NodeGroupOutput'',
      SetName ''group_output'' ''Group Output'',
      New ''group_input'' ''NodeGroupInput'',
      SetName ''group_input'' ''Group Input'',
      SetLocation ''group_input'' (-400) 0,
      New ''emission'' ''ShaderNodeEmission'',
      SetName ''emission'' ''Emission'',
      SetLocation ''emission'' (-200) 0,
      Link ''emission'' (ByName ''Color'') ''group_input'' (ByName ''Base Color''),
      Link ''group_output'' (ByName ''Shader'') ''emission'' (ByName ''Emission'')]"

definition emissive_interface :: "(string \<times> string) list \<Rightarrow> node_tree \<Rightarrow> node_tree" where
  "emissive_interface inputs_dict t =
     new_socket ''Emission Strength'' ''NodeSocketFloat'' ''INPUT'' None (Some (PyInt 1))
       (new_socket ''Emission Color'' ''NodeSocketColor'' ''INPUT'' None
          (Some (PyTuple [0, 0, 0, 1]))
          (generate_shader_interface inputs_dict t))"

definition emissive_body :: "step list" where
  "emissive_body =
     [New ''group_output'' ''NodeGroupOutput'',
      SetName ''group_output'' ''Group Output'',
      New ''group_input'' ''NodeGroupInput'',
      SetName ''group_input'' ''Group Input'',
      SetLocation ''group_input'' (-600) 0,
      New ''emission'' ''ShaderNodeEmission'',
      SetName ''emission'' ''Emission'',
      SetLocation ''emission'' (-200) 0,
      Link ''emission'' (ByName ''Color'') ''group_input'' (ByName ''Emission Color''),
      Link ''group_output'' (ByName ''Shader'') ''emission'' (ByName ''Emission'')]"

definition roughness_interface :: "(string \<times> string) list \<Rightarrow> node_tree \<Rightarrow> node_tree" where
  "roughness_interface inputs_dict t =
     new_socket ''Roughness'' ''NodeSocketFloat'' ''INPUT'' None None
       (generate_shader_interface inputs_dict t)"

definition roughness_body :: "step list" where
  "roughness_body =
     [New ''group_output'' ''NodeGroupOutput'',
      SetName ''group_output'' ''Group Output'',
      New ''group_input'' ''NodeGroupInput'',
      SetName ''group_input'' ''Group Input'',
      SetLocation ''group_input'' (-600) 0,
      New ''invert'' ''ShaderNodeInvert'',
      SetLocation ''invert'' (-400) 0,
      SetInput ''invert'' (ByIndex 0) (PyInt 0),
      New ''emission'' ''ShaderNodeEmission'',
      SetName ''emission'' ''Emission'',
      SetLocation ''emission'' (-200) 0,
      Link ''invert'' (ByName ''Color'') ''group_input'' (ByName ''Roughness''),
      Link ''emission'' (ByName ''Color'') ''invert'' (ByName ''Color''),
      Link ''group_output'' (ByName ''Shader'') ''emission'' (ByName ''Emission'')]"

definition metallic_interface :: "(string \<times> string) list \<Rightarrow> node_tree \<Rightarrow> node_tree" where
  "metallic_interface inputs_dict t =
     new_socket ''Metallic'' ''NodeSocketFloat'' ''INPUT'' None None
       (generate_shader_interface inputs_dict t)"

definition metallic_body :: "step list" where
  "metallic_body =
     [New ''group_output'' ''NodeGroupOutput'',
      SetName ''group_output'' ''Group Output'',
      New ''group_input'' ''NodeGroupInput'',
      SetName ''group_input'' ''Group Input'',
      SetLocation ''group_input'' (-400) 0,
      New ''emission'' ''ShaderNodeEmission'',
      SetName ''emission'' ''Emission'',
      SetLocation ''emission'' (-200) 0,
      Link ''emission'' (ByName ''Color'') ''group_input'' (ByName ''Metallic''),
      Link ''group_output'' (ByName ''Shader'') ''emission'' (ByName ''Emission'')]"

subsection \<open>\<open>node_init\<close>\<close>

text \<open>
  The nine blocks of \<open>node_init\<close> in their order, each with the name of its group.  A
  block runs only when no group of its name is in \<open>bpy.data.node_groups\<close>; a block that
  raises ends the function.
\<close>

definition recipes ::
  "host \<Rightarrow> Global \<Rightarrow> bpy \<Rightarrow> (string \<times> string) list \<Rightarrow> (string \<times> (py_error + node_tree)) list" where
  "recipes H G b inputs_dict =
     (let g = gd (context_scene b);
          flip = (case normals g of [] \<Rightarrow> Inl IndexError | n # _ \<Rightarrow> Inr (flip_y n));
          gamma0 = (case occlusion g of [] \<Rightarrow> Inl IndexError | oc # _ \<Rightarrow> Inr (occlusion.gamma oc));
          camera_z = (case data_objects b (TRIM_CAMERA_NAME G) of
                        None \<Rightarrow> Inl AttributeError
                      | Some cam \<Rightarrow> Inr (location_z cam))
      in [(NORMAL_NODE G, build_group H (normal_interface inputs_dict) (normal_body flip)),
          (CURVATURE_NODE G, build_group H (generate_shader_interface inputs_dict) curvature_body),
          (OCCLUSION_NODE G, build_group H (occlusion_interface inputs_dict) (occlusion_body gamma0)),
          (HEIGHT_NODE G, build_group H (generate_shader_interface inputs_dict) height_body),
          (ALPHA_NODE G, build_group H (alpha_interface G inputs_dict) (alpha_body camera_z)),
          (COLOR_NODE G, build_group H (color_interface G inputs_dict) color_body),
          (EMISSIVE_NODE G, build_group H (emissive_interface inputs_dict) emissive_body),
          (ROUGHNESS_NODE G, build_group H (roughness_interface inputs_dict) roughness_body),
          (METALLIC_NODE G, build_group H (metallic_interface inputs_dict) metallic_body)])"

fun ensure_groups ::
  "(string \<times> (py_error + node_tree)) list \<Rightarrow> (string \<rightharpoonup> node_tree) \<Rightarrow>
   py_error + (string \<rightharpoonup> node_tree)" where
  "ensure_groups [] groups = Inr groups"
| "ensure_groups ((nm, built) # rest) groups =
     (case groups nm of
        Some _ \<Rightarrow> ensure_groups rest groups
      | None \<Rightarrow>
          (case built of
             Inl e \<Rightarrow> Inl e
           | Inr tree \<Rightarrow> ensure_groups rest (groups(nm \<mapsto> tree))))"

definition node_init :: "host \<Rightarrow> Global \<Rightarrow> bpy \<Rightarrow> py_error + bpy" where
  "node_init H G b =
     (case get_material_output_inputs H of
        Inl e \<Rightarrow> Inl e
      | Inr inputs_dict \<Rightarrow>
          (case ensure_groups (recipes H G b inputs_dict) (data_node_groups b) of
             Inl e \<Rightarrow> Inl e
           | Inr groups \<Rightarrow> Inr (b\<lparr>data_node_groups := groups\<rparr>)))"

subsection \<open>\<open>create_node_links\<close>\<close>

text \<open>Python's \<open>int(x)\<close> of a float truncates towards zero; \<open>float(x)\<close> of a tuple
  raises \<open>TypeError\<close>.  \<open>coerce_default\<close> is the body of the \<open>except TypeError\<close> branch
  up to the assignment.\<close>

definition py_int :: "real \<Rightarrow> int" where
  "py_int x = (if 0 \<le> x then \<lfloor>x\<rfloor> else \<lceil>x\<rceil>)"

definition coerce_default :: "pyval \<Rightarrow> py_error + pyval" where
  "coerce_default v =
     (case v of
        PyFloat x \<Rightarrow> Inr (PyInt (py_int x))
      | PyInt i \<Rightarrow> Inr (PyFloat (of_int i))
      | PyBool c \<Rightarrow> Inr (PyFloat (if c then 1 else 0))
      | PyTuple xs \<Rightarrow> Inl TypeError)"

text \<open>
  \<open>create_node_links(input_name, node_group, original_input, material)\<close>:
  \<open>node_group\<close> names the passthrough node, \<open>original_input\<close> is an input socket of a
  node of the material's tree \<open>t\<close>, given by the node's name and the socket's position.
  The result is the tree and \<open>node_found\<close>.
\<close>

definition create_node_links ::
  "host \<Rightarrow> string \<Rightarrow> string \<Rightarrow> string \<times> nat \<Rightarrow> node_tree \<Rightarrow> py_error + (node_tree \<times> bool)" where
  "create_node_links H input_name node_group original_input t =
     (case nodes_get t node_group of
        None \<Rightarrow> Inl AttributeError
      | Some ng \<Rightarrow>
     (case input_links t (fst original_input) (snd original_input) of
        l # _ \<Rightarrow>
          (case resolve (inputs ng) (ByName input_name) of
             Inl e \<Rightarrow> Inl e
           | Inr i \<Rightarrow>
          (case nodes_get t (from_node l) of
             None \<Rightarrow> Inl AttributeError
           | Some src \<Rightarrow>
               if from_socket l < length (outputs src) then
                 (case resolve (outputs src)
                         (ByName (socket.name (outputs src ! from_socket l))) of
                    Inl e \<Rightarrow> Inl e
                  | Inr j \<Rightarrow> Inr (links_new (node_group, i) (from_node l, j) t, True))
               else Inl AttributeError))
      | [] \<Rightarrow>
          (case nodes_get t (fst original_input) of
             None \<Rightarrow> Inl AttributeError
           | Some orig \<Rightarrow>
               if snd original_input < length (inputs orig) then
                 (case socket.default_value (inputs orig ! snd original_input) of
                    None \<Rightarrow> Inl AttributeError
                  | Some v \<Rightarrow>
                 (case resolve (inputs ng) (ByName input_name) of
                    Inl e \<Rightarrow> Inl e
                  | Inr i \<Rightarrow>
                 (case set_input_default H node_group i v t of
                    Inr t' \<Rightarrow> Inr (t', False)
                  | Inl e \<Rightarrow>
                      if e = TypeError then
                        (case coerce_default v of
                           Inl e' \<Rightarrow> Inl e'
                         | Inr v' \<Rightarrow>
                             (case set_input_default H node_group i v' t of
                                Inl e' \<Rightarrow> Inl e'
                              | Inr t' \<Rightarrow> Inr (t', False)))
                      else Inl e)))
               else Inl IndexError)))"

subsection \<open>\<open>apply_node_to_objects\<close>\<close>

text \<open>
  The state of the work on one material: its node tree, its \<open>blend_method\<close> and a flag.
  \<open>bridge_inputs\<close> is the loop \<open>for original_input in source_node.inputs\<close> over the
  inputs that are left, each with its position, and \<open>bridge_input\<close> is its body, which
  also says whether the loop ends there (\<open>break\<close>); the flag of their state is
  \<open>node_found\<close>.  \<open>use_tex\<close> is \<open>gd.normals[0].use_texture\<close>, an exception when the
  collection is empty; it is read only behind the test of the input's name.
\<close>

type_synonym splice_state = "node_tree \<times> string \<times> bool"

definition bridge_channel ::
  "host \<Rightarrow> string \<Rightarrow> string \<Rightarrow> nat \<times> socket \<Rightarrow> splice_state \<Rightarrow> py_error + splice_state" where
  "bridge_channel H passthrough source original_input st =
     (case st of (t, blend, node_found) \<Rightarrow>
        (case create_node_links H (socket.name (snd original_input)) passthrough
                (source, fst original_input) t of
           Inl e \<Rightarrow> Inl e
         | Inr (t', found) \<Rightarrow> Inr (t', blend, found)))"

definition bridge_input ::
  "host \<Rightarrow> Global \<Rightarrow> string \<Rightarrow> py_error + bool \<Rightarrow> string \<Rightarrow> string \<Rightarrow>
   nat \<times> socket \<Rightarrow> splice_state \<Rightarrow> py_error + (splice_state \<times> bool)" where
  "bridge_input H G nm use_tex passthrough source original_input st =
     (let input_name = socket.name (snd original_input) in
      if nm = COLOR_NODE G \<and> input_name = COLOR_NAME G then
        (case bridge_channel H passthrough source original_input st of
           Inl e \<Rightarrow> Inl e
         | Inr st' \<Rightarrow> Inr (st', False))
      else if nm = EMISSIVE_NODE G \<and> input_name = ''Emission Color'' then
        (case bridge_channel H passthrough source original_input st of
           Inl e \<Rightarrow> Inl e
         | Inr st' \<Rightarrow> Inr (st', False))
      else if nm = ROUGHNESS_NODE G \<and> input_name = ROUGHNESS_NAME G then
        (case bridge_channel H passthrough source original_input st of
           Inl e \<Rightarrow> Inl e
         | Inr st' \<Rightarrow> Inr (st', False))
      else if nm = METALLIC_NODE G \<and> input_name = METALLIC_NAME G then
        (case bridge_channel H passthrough source original_input st of
           Inl e \<Rightarrow> Inl e
         | Inr st' \<Rightarrow> Inr (st', False))
      else if nm = ALPHA_NODE G \<and> input_name = ALPHA_NAME G then
        (case bridge_channel H passthrough source original_input st of
           Inl e \<Rightarrow> Inl e
         | Inr (t, blend, found) \<Rightarrow>
             Inr ((t,
                   (if input_name = ''Alpha'' \<and> blend = ''OPAQUE''
                       \<and> input_links t source (fst original_input) \<noteq> []
                    then ''CLIP'' else blend),
                   found), False))
      else if nm = NORMAL_NODE G \<and> input_name = ''Normal'' then
        (case bridge_channel H passthrough source original_input st of
           Inl e \<Rightarrow> Inl e
         | Inr (t, blend, found) \<Rightarrow>
             if input_name = ''Alpha'' then
               (case use_tex of
                  Inl e \<Rightarrow> Inl e
                | Inr u \<Rightarrow>
                    Inr ((t,
                          (if u \<and> blend = ''OPAQUE''
                              \<and> input_links t source (fst original_input) \<noteq> []
                           then ''CLIP'' else blend),
                          found), False))
             else Inr ((t, blend, found), False))
      else if nm = OCCLUSION_NODE G \<and> input_name = ''Normal'' then
        (case bridge_channel H passthrough source original_input st of
           Inl e \<Rightarrow> Inl e
         | Inr st' \<Rightarrow> Inr (st', False))
      else if snd (snd st) then Inr (st, True)
      else Inr (st, False))"

primrec bridge_inputs ::
  "host \<Rightarrow> Global \<Rightarrow> string \<Rightarrow> py_error + bool \<Rightarrow> string \<Rightarrow> string \<Rightarrow>
   (nat \<times> socket) list \<Rightarrow> splice_state \<Rightarrow> py_error + splice_state" where
  "bridge_inputs H G nm use_tex passthrough source [] st = Inr st"
| "bridge_inputs H G nm use_tex passthrough source (original_input # rest) st =
     (case bridge_input H G nm use_tex passthrough source original_input st of
        Inl e \<Rightarrow> Inl e
      | Inr (st', stop) \<Rightarrow>
          if stop then Inr st' else bridge_inputs H G nm use_tex passthrough source rest st')"

text \<open>
  The body of \<open>for link in output_material_input.links\<close>: the link from the source
  node is stored on the passthrough's input of the same name (\<open>KeyError\<close> is caught
  there), then the channels of a BSDF source are bridged.  The flag of the state is
  \<open>operation_success\<close>.
\<close>

definition store_link :: "string \<Rightarrow> string \<Rightarrow> link \<Rightarrow> node_tree \<Rightarrow> py_error + node_tree" where
  "store_link passthrough input_name l t =
     (case nodes_get t passthrough of
        None \<Rightarrow> Inl AttributeError
      | Some p \<Rightarrow>
          (case resolve (inputs p) (ByName input_name) of
             Inl e \<Rightarrow> Inr t
           | Inr i \<Rightarrow>
               (case nodes_get t (from_node l) of
                  None \<Rightarrow> Inl AttributeError
                | Some source_node \<Rightarrow>
                    if from_socket l < length (outputs source_node) then
                      (case resolve (outputs source_node)
                              (ByName (socket.name (outputs source_node ! from_socket l))) of
                         Inl e \<Rightarrow> Inr t
                       | Inr j \<Rightarrow> Inr (links_new (passthrough, i) (from_node l, j) t))
                    else Inl AttributeError)))"

definition splice_link ::
  "host \<Rightarrow> Global \<Rightarrow> string \<Rightarrow> py_error + bool \<Rightarrow> string \<Rightarrow> string \<Rightarrow> string \<Rightarrow> link \<Rightarrow>
   splice_state \<Rightarrow> py_error + splice_state" where
  "splice_link H G nm use_tex material_name passthrough input_name l st =
     (case st of (t, blend, operation_success) \<Rightarrow>
     (case store_link passthrough input_name l t of
        Inl e \<Rightarrow> Inl e
      | Inr t1 \<Rightarrow>
          if nm \<notin> set (SHADER_MAP_NAMES G) then Inr (t1, blend, operation_success)
          else
            (case nodes_get t1 (from_node l) of
               None \<Rightarrow> Inl AttributeError
             | Some source_node \<Rightarrow>
                 if \<not> contains_str ''BSDF'' (node.type source_node)
                 then Inr (t1, blend, operation_success)
                 else
                   (case bridge_inputs H G nm use_tex passthrough (from_node l)
                           (enumerate 0 (inputs source_node)) (t1, blend, False) of
                      Inl e \<Rightarrow> Inl e
                    | Inr (t2, blend2, node_found) \<Rightarrow>
                        Inr (t2, blend2,
                             (if \<not> node_found \<and> nm \<noteq> NORMAL_NODE G
                                 \<and> material_name \<noteq> GD_MATERIAL_NAME G
                              then False else operation_success))))))"

fun splice_links ::
  "host \<Rightarrow> Global \<Rightarrow> string \<Rightarrow> py_error + bool \<Rightarrow> string \<Rightarrow> string \<Rightarrow> string \<Rightarrow> link list \<Rightarrow>
   splice_state \<Rightarrow> py_error + splice_state" where
  "splice_links H G nm use_tex material_name passthrough input_name [] st = Inr st"
| "splice_links H G nm use_tex material_name passthrough input_name (l # ls) st =
     (case splice_link H G nm use_tex material_name passthrough input_name l st of
        Inl e \<Rightarrow> Inl e
      | Inr st' \<Rightarrow> splice_links H G nm use_tex material_name passthrough input_name ls st')"

text \<open>\<open>for output_material_input in output.inputs\<close>: the links of an input are read when
  its turn comes.\<close>

fun splice_inputs ::
  "host \<Rightarrow> Global \<Rightarrow> string \<Rightarrow> py_error + bool \<Rightarrow> string \<Rightarrow> string \<Rightarrow> string \<Rightarrow>
   (nat \<times> socket) list \<Rightarrow> splice_state \<Rightarrow> py_error + splice_state" where
  "splice_inputs H G nm use_tex material_name passthrough output [] st = Inr st"
| "splice_inputs H G nm use_tex material_name passthrough output (output_material_input # rest) st =
     (case splice_links H G nm use_tex material_name passthrough
             (socket.name (snd output_material_input))
             (input_links (fst st) output (fst output_material_input)) st of
        Inl e \<Rightarrow> Inl e
      | Inr st' \<Rightarrow> splice_inputs H G nm use_tex material_name passthrough output rest st')"

text \<open>\<open>for link in output.inputs[name].links: links.remove(link)\<close>.\<close>

definition remove_input_links :: "string \<Rightarrow> string \<Rightarrow> node_tree \<Rightarrow> py_error + node_tree" where
  "remove_input_links output input_name t =
     (case nodes_get t output of
        None \<Rightarrow> Inl AttributeError
      | Some out \<Rightarrow>
          (case resolve (inputs out) (ByName input_name) of
             Inl e \<Rightarrow> Inl e
           | Inr i \<Rightarrow> Inr (fold links_remove (input_links t output i) t)))"

text \<open>
  The body of \<open>for output in output_nodes\<close>, in three parts.  The first makes the
  passthrough node and the frame beside it.  \<open>node_group\<close> is
  \<open>bpy.data.node_groups.get(name)\<close>, whose name is \<open>name\<close>; reading the name of a
  missing group raises.  The text block \<open>_grabdoc_ng_warning\<close> that this body also
  writes is written where the material is stored back (\<open>splice_slot\<close>).
\<close>

definition add_passthrough ::
  "host \<Rightarrow> string \<Rightarrow> node_tree option \<Rightarrow> node \<Rightarrow> node_tree \<Rightarrow> py_error + (string \<times> node_tree)" where
  "add_passthrough H nm node_group out t =
     (case nodes_new H ''ShaderNodeGroup'' t of
        Inl e \<Rightarrow> Inl e
      | Inr (p0, t) \<Rightarrow>
     (let t = set_node_tree p0 (map_option (Pair nm) node_group) t;
          t = update_node p0
                (\<lambda>x. x\<lparr>location := (fst (location out), snd (location out) - 160)\<rparr>) t
      in case node_group of
           None \<Rightarrow> Inl AttributeError
         | Some _ \<Rightarrow>
     (case rename_node H p0 nm t of (passthrough, t) \<Rightarrow>
     (let t = update_node passthrough (set_attr ''hide'' (ABool True)) t in
      case nodes_new H ''NodeFrame'' t of
        Inl e \<Rightarrow> Inl e
      | Inr (f0, t) \<Rightarrow>
     (let t = update_node f0
                (\<lambda>x. x\<lparr>location := (fst (location out), snd (location out) - 195)\<rparr>) t
      in case rename_node H f0 nm t of (GD_frame, t) \<Rightarrow>
           Inr (passthrough,
                update_node GD_frame
                  (\<lambda>x. set_attr ''height'' (ANum 150) (set_attr ''width'' (ANum 1000)
                          (set_attr ''text'' (AStr ''_grabdoc_ng_warning'') x))) t))))))"

text \<open>The end of the body: the links into the output's \<open>Volume\<close> and \<open>Displacement\<close>
  inputs are removed, and the passthrough's \<open>Shader\<close> output feeds the \<open>Surface\<close> input.\<close>

definition connect_passthrough :: "string \<Rightarrow> string \<Rightarrow> node_tree \<Rightarrow> py_error + node_tree" where
  "connect_passthrough output passthrough t =
     (case remove_input_links output ''Volume'' t of
        Inl e \<Rightarrow> Inl e
      | Inr t \<Rightarrow>
     (case remove_input_links output ''Displacement'' t of
        Inl e \<Rightarrow> Inl e
      | Inr t \<Rightarrow>
     (case nodes_get t output of
        None \<Rightarrow> Inl AttributeError
      | Some out \<Rightarrow>
     (case resolve (inputs out) (ByName ''Surface'') of
        Inl e \<Rightarrow> Inl e
      | Inr i \<Rightarrow>
     (case nodes_get t passthrough of
        None \<Rightarrow> Inl AttributeError
      | Some p \<Rightarrow>
     (case resolve (outputs p) (ByName ''Shader'') of
        Inl e \<Rightarrow> Inl e
      | Inr j \<Rightarrow> Inr (links_new (output, i) (passthrough, j) t)))))))"

definition splice_output ::
  "host \<Rightarrow> Global \<Rightarrow> string \<Rightarrow> py_error + bool \<Rightarrow> node_tree option \<Rightarrow> string \<Rightarrow> string \<Rightarrow>
   splice_state \<Rightarrow> py_error + splice_state" where
  "splice_output H G nm use_tex node_group material_name output st =
     (case st of (t, blend, operation_success) \<Rightarrow>
     (case nodes_get t output of
        None \<Rightarrow> Inl AttributeError
      | Some out \<Rightarrow>
     (case add_passthrough H nm node_group out t of
        Inl e \<Rightarrow> Inl e
      | Inr (passthrough, t1) \<Rightarrow>
     (case splice_inputs H G nm use_tex material_name passthrough output
             (enumerate 0 (inputs out)) (t1, blend, operation_success) of
        Inl e \<Rightarrow> Inl e
      | Inr (t2, blend2, ok) \<Rightarrow>
     (case connect_passthrough output passthrough t2 of
        Inl e \<Rightarrow> Inl e
      | Inr t3 \<Rightarrow> Inr (t3, blend2, ok))))))"

fun splice_outputs ::
  "host \<Rightarrow> Global \<Rightarrow> string \<Rightarrow> py_error + bool \<Rightarrow> node_tree option \<Rightarrow> string \<Rightarrow> string list \<Rightarrow>
   splice_state \<Rightarrow> py_error + splice_state" where
  "splice_outputs H G nm use_tex node_group material_name [] st = Inr st"
| "splice_outputs H G nm use_tex node_group material_name (output # rest) st =
     (case splice_output H G nm use_tex node_group material_name output st of
        Inl e \<Rightarrow> Inl e
      | Inr st' \<Rightarrow> splice_outputs H G nm use_tex node_group material_name rest st')"

text \<open>\<open>material.use_nodes = True\<close>: a material that never had nodes gets the host's
  default tree.\<close>

definition enable_nodes :: "host \<Rightarrow> material \<Rightarrow> material" where
  "enable_nodes H m =
     m\<lparr>material.use_nodes := True,
       material.node_tree := Some (case material.node_tree m of
                                     None \<Rightarrow> default_tree H | Some t \<Rightarrow> t)\<rparr>"

definition the_tree :: "host \<Rightarrow> material \<Rightarrow> node_tree" where
  "the_tree H m = (case material.node_tree m of None \<Rightarrow> default_tree H | Some t \<Rightarrow> t)"

definition output_nodes :: "node_tree \<Rightarrow> string list" where
  "output_nodes t = map node.name (filter (\<lambda>x. node.type x = ''OUTPUT_MATERIAL'') (nodes t))"

text \<open>
  The body of \<open>for slot in ob.material_slots\<close> on the material \<open>m\<close> of the slot, after
  \<open>use_nodes\<close> is set.  \<open>None\<close> is the \<open>continue\<close> of a material that has the node
  already.  \<open>output_nodes\<close> is a Python set, so \<open>output_nodes.append\<close> raises
  \<open>AttributeError\<close> when the set is empty, before a node is created.
\<close>

definition splice_material ::
  "host \<Rightarrow> Global \<Rightarrow> string \<Rightarrow> py_error + bool \<Rightarrow> node_tree option \<Rightarrow> string \<Rightarrow> material \<Rightarrow> bool \<Rightarrow>
   py_error + (material \<times> bool) option" where
  "splice_material H G nm use_tex node_group material_name m operation_success =
     (let t = the_tree H m in
      if nm \<in> set (node_names t) then Inr None
      else if output_nodes t = [] then Inl AttributeError
      else
        (case splice_outputs H G nm use_tex node_group material_name
                (set_order H (output_nodes t)) (t, blend_method m, operation_success) of
           Inl e \<Rightarrow> Inl e
         | Inr (t', blend, ok) \<Rightarrow>
             Inr (Some (m\<lparr>material.node_tree := Some t', blend_method := blend\<rparr>, ok))))"

text \<open>\<open>bpy.data.materials\<close>: lookup by name, assignment to a material that is there,
  and \<open>materials.new\<close> of a name that is not.\<close>

definition materials_get :: "(string \<times> material) list \<Rightarrow> string \<Rightarrow> material option" where
  "materials_get ms n = map_of ms n"

primrec materials_set ::
  "string \<Rightarrow> material \<Rightarrow> (string \<times> material) list \<Rightarrow> (string \<times> material) list" where
  "materials_set n m [] = []"
| "materials_set n m (p # ps) = (if fst p = n then (n, m) # ps else p # materials_set n m ps)"

definition new_material :: material where
  "new_material =
     \<lparr>material.use_nodes = False, material.node_tree = None, blend_method = ''OPAQUE''\<rparr>"

definition splice_slot ::
  "host \<Rightarrow> Global \<Rightarrow> string \<Rightarrow> string \<Rightarrow> bpy \<times> bool \<Rightarrow> py_error + (bpy \<times> bool)" where
  "splice_slot H G nm slot_name st =
     (case st of (b, operation_success) \<Rightarrow>
     (case materials_get (data_materials b) slot_name of
        None \<Rightarrow> Inl AttributeError
      | Some m0 \<Rightarrow>
     (let m = enable_nodes H m0;
          b = b\<lparr>data_materials := materials_set slot_name m (data_materials b)\<rparr>;
          use_tex = (case normals (gd (context_scene b)) of
                       [] \<Rightarrow> Inl IndexError | n # _ \<Rightarrow> Inr (use_texture n))
      in case splice_material H G nm use_tex (data_node_groups b nm) slot_name m
                operation_success of
           Inl e \<Rightarrow> Inl e
         | Inr None \<Rightarrow> Inr (b, operation_success)
         | Inr (Some (m', ok)) \<Rightarrow>
             Inr (b\<lparr>data_materials := materials_set slot_name m' (data_materials b),
                    data_texts := (data_texts b)(''_grabdoc_ng_warning'' \<mapsto> NG_NODE_WARNING G)\<rparr>,
                  ok))))"

fun splice_slots ::
  "host \<Rightarrow> Global \<Rightarrow> string \<Rightarrow> string list \<Rightarrow> bpy \<times> bool \<Rightarrow> py_error + (bpy \<times> bool)" where
  "splice_slots H G nm [] st = Inr st"
| "splice_slots H G nm (slot_name # rest) st =
     (case splice_slot H G nm slot_name st of
        Inl e \<Rightarrow> Inl e
      | Inr st' \<Rightarrow> splice_slots H G nm rest st')"

text \<open>
  The default material.  \<open>ob.material_slots['']\<close> is the first empty slot;
  \<open>ob.active_material\<close> is the material of the active slot, \<open>None\<close> when the object has
  no slot or the slot is empty, and assigning it to an object without slots gives the
  object one slot.
\<close>

fun first_empty :: "string list \<Rightarrow> nat option" where
  "first_empty [] = None"
| "first_empty (s # ss) = (if s = [] then Some 0 else map_option Suc (first_empty ss))"

fun fill_empty_slots :: "string \<Rightarrow> nat list \<Rightarrow> string list \<Rightarrow> string list" where
  "fill_empty_slots mat [] slots = slots"
| "fill_empty_slots mat (i # rest) slots =
     (if slots ! i = []
      then (case first_empty slots of
              None \<Rightarrow> fill_empty_slots mat rest slots
            | Some k \<Rightarrow> fill_empty_slots mat rest (slots[k := mat]))
      else fill_empty_slots mat rest slots)"

definition active_slot :: "object \<Rightarrow> nat" where
  "active_slot ob = min (active_material_index ob) (length (material_slots ob) - 1)"

definition active_material :: "object \<Rightarrow> string option" where
  "active_material ob =
     (if material_slots ob = [] then None
      else if material_slots ob ! active_slot ob = [] then None
      else Some (material_slots ob ! active_slot ob))"

definition set_active_material :: "string \<Rightarrow> object \<Rightarrow> object" where
  "set_active_material mat ob =
     (if material_slots ob = [] then ob\<lparr>material_slots := [mat]\<rparr>
      else ob\<lparr>material_slots := (material_slots ob)[active_slot ob := mat]\<rparr>)"

text \<open>The default material is made when no material has its name: a new material with
  nodes, whose Principled BSDF gets a black emission colour.\<close>

definition default_material :: "host \<Rightarrow> py_error + material" where
  "default_material H =
     (let mat = enable_nodes H new_material; t = the_tree H mat in
      case nodes_get t ''Principled BSDF'' of
        None \<Rightarrow> Inl KeyError
      | Some bsdf \<Rightarrow>
          (case resolve (inputs bsdf) (ByName ''Emission Color'') of
             Inl e \<Rightarrow> Inl e
           | Inr i \<Rightarrow>
               (case set_input_default H ''Principled BSDF'' i (PyTuple [0, 0, 0, 1]) t of
                  Inl e \<Rightarrow> Inl e
                | Inr t' \<Rightarrow> Inr (mat\<lparr>material.node_tree := Some t'\<rparr>))))"

definition assign_default_material ::
  "host \<Rightarrow> Global \<Rightarrow> string \<Rightarrow> bpy \<Rightarrow> py_error + bpy" where
  "assign_default_material H G ob_name b =
     (case data_objects b ob_name of
        None \<Rightarrow> Inl ReferenceError
      | Some ob \<Rightarrow>
          if material_slots ob = [] \<or> [] \<in> set (material_slots ob) then
            (case (if GD_MATERIAL_NAME G \<in> fst ` set (data_materials b)
                   then Inr (data_materials b)
                   else (case default_material H of
                           Inl e \<Rightarrow> Inl e
                         | Inr mat \<Rightarrow> Inr (data_materials b @ [(GD_MATERIAL_NAME G, mat)]))) of
               Inl e \<Rightarrow> Inl e
             | Inr ms \<Rightarrow>
                 (let ob = ob\<lparr>material_slots :=
                                fill_empty_slots (GD_MATERIAL_NAME G)
                                  [0 ..< length (material_slots ob)] (material_slots ob)\<rparr>;
                      ob = (if active_material ob = None
                            then set_active_material (GD_MATERIAL_NAME G) ob else ob)
                  in Inr (b\<lparr>data_materials := ms,
                            data_objects := (data_objects b)(ob_name \<mapsto> ob)\<rparr>)))
          else Inr b)"

text \<open>The body of \<open>for ob in objects\<close>, the loop, and \<open>apply_node_to_objects\<close>; the
  objects are given by their names.\<close>

definition apply_node_to_object ::
  "host \<Rightarrow> Global \<Rightarrow> string \<Rightarrow> string \<Rightarrow> bpy \<times> bool \<Rightarrow> py_error + (bpy \<times> bool)" where
  "apply_node_to_object H G nm ob_name st =
     (case assign_default_material H G ob_name (fst st) of
        Inl e \<Rightarrow> Inl e
      | Inr b \<Rightarrow>
          (case data_objects b ob_name of
             None \<Rightarrow> Inl ReferenceError
           | Some ob \<Rightarrow> splice_slots H G nm (material_slots ob) (b, snd st)))"

fun apply_node_to_each ::
  "host \<Rightarrow> Global \<Rightarrow> string \<Rightarrow> string list \<Rightarrow> bpy \<times> bool \<Rightarrow> py_error + (bpy \<times> bool)" where
  "apply_node_to_each H G nm [] st = Inr st"
| "apply_node_to_each H G nm (ob_name # rest) st =
     (case apply_node_to_object H G nm ob_name st of
        Inl e \<Rightarrow> Inl e
      | Inr st' \<Rightarrow> apply_node_to_each H G nm rest st')"

definition apply_node_to_objects ::
  "host \<Rightarrow> Global \<Rightarrow> string \<Rightarrow> string list \<Rightarrow> bpy \<Rightarrow> py_error + (bpy \<times> bool)" where
  "apply_node_to_objects H G nm objects b = apply_node_to_each H G nm objects (b, True)"

subsection \<open>\<open>node_cleanup\<close>\<close>

text \<open>The search for the material output node that a node feeds: the first link, over
  the node's outputs in order, that ends in a node of type \<open>OUTPUT_MATERIAL\<close>.\<close>

definition find_output_node :: "node_tree \<Rightarrow> node \<Rightarrow> string option" where
  "find_output_node t x =
     map_option to_node
       (find (\<lambda>l. case nodes_get t (to_node l) of
                    None \<Rightarrow> False | Some y \<Rightarrow> node.type y = ''OUTPUT_MATERIAL'')
          (concat (map (output_links t (node.name x)) [0 ..< length (outputs x)])))"

text \<open>The body of \<open>for link in node_input.links\<close> and the two loops around it.\<close>

fun restore_connections ::
  "string list \<Rightarrow> string \<Rightarrow> string \<Rightarrow> link \<Rightarrow> node_tree \<Rightarrow> py_error + node_tree" where
  "restore_connections [] input_name output_node l t = Inr t"
| "restore_connections (connection_name # rest) input_name output_node l t =
     (if input_name \<noteq> connection_name then restore_connections rest input_name output_node l t
      else
        (case nodes_get t output_node of
           None \<Rightarrow> Inl AttributeError
         | Some out \<Rightarrow>
        (case resolve (inputs out) (ByName connection_name) of
           Inl e \<Rightarrow> Inl e
         | Inr i \<Rightarrow>
        (case nodes_get t (from_node l) of
           None \<Rightarrow> Inl AttributeError
         | Some original_node_connection \<Rightarrow>
             if from_socket l < length (outputs original_node_connection) then
               (case resolve (outputs original_node_connection)
                       (ByName (socket.name (outputs original_node_connection ! from_socket l))) of
                  Inl e \<Rightarrow> Inl e
                | Inr j \<Rightarrow>
                    restore_connections rest input_name output_node l
                      (links_new (output_node, i) (from_node l, j) t))
             else Inl AttributeError))))"

fun restore_links ::
  "string list \<Rightarrow> string \<Rightarrow> string \<Rightarrow> link list \<Rightarrow> node_tree \<Rightarrow> py_error + node_tree" where
  "restore_links keys input_name output_node [] t = Inr t"
| "restore_links keys input_name output_node (l # ls) t =
     (if last_word input_name \<notin> set keys then restore_links keys input_name output_node ls t
      else
        (case restore_connections keys input_name output_node l t of
           Inl e \<Rightarrow> Inl e
         | Inr t' \<Rightarrow> restore_links keys input_name output_node ls t'))"

fun restore_inputs ::
  "string list \<Rightarrow> string \<Rightarrow> string \<Rightarrow> (nat \<times> socket) list \<Rightarrow> node_tree \<Rightarrow> py_error + node_tree" where
  "restore_inputs keys n output_node [] t = Inr t"
| "restore_inputs keys n output_node (node_input # rest) t =
     (case restore_links keys (socket.name (snd node_input)) output_node
             (input_links t n (fst node_input)) t of
        Inl e \<Rightarrow> Inl e
      | Inr t' \<Rightarrow> restore_inputs keys n output_node rest t')"

text \<open>The body of \<open>for node in grabdoc_nodes\<close>.\<close>

definition unsplice_node :: "string list \<Rightarrow> string \<Rightarrow> node_tree \<Rightarrow> py_error + node_tree" where
  "unsplice_node keys n t =
     (case nodes_get t n of
        None \<Rightarrow> Inl ReferenceError
      | Some x \<Rightarrow>
          (case find_output_node t x of
             None \<Rightarrow> Inr (nodes_remove n t)
           | Some output_node \<Rightarrow>
               (case restore_inputs keys n output_node (enumerate 0 (inputs x)) t of
                  Inl e \<Rightarrow> Inl e
                | Inr t' \<Rightarrow> Inr (nodes_remove n t'))))"

fun unsplice_nodes :: "string list \<Rightarrow> string list \<Rightarrow> node_tree \<Rightarrow> py_error + node_tree" where
  "unsplice_nodes keys [] t = Inr t"
| "unsplice_nodes keys (n # ns) t =
     (case unsplice_node keys n t of
        Inl e \<Rightarrow> Inl e
      | Inr t' \<Rightarrow> unsplice_nodes keys ns t')"

text \<open>The body of \<open>for mat in bpy.data.materials\<close> for a material that is not the
  default material, on its tree after \<open>use_nodes\<close> is set.\<close>

definition cleanup_tree :: "string list \<Rightarrow> string \<Rightarrow> node_tree \<Rightarrow> py_error + node_tree" where
  "cleanup_tree keys setup_type t =
     (if setup_type \<notin> set (node_names t) then Inr t
      else unsplice_nodes keys
             (filter (\<lambda>n. startswith n setup_type) (node_names t)) t)"

fun cleanup_materials ::
  "host \<Rightarrow> Global \<Rightarrow> string list \<Rightarrow> string \<Rightarrow> (string \<times> material) list \<Rightarrow>
   py_error + (string \<times> material) list" where
  "cleanup_materials H G keys setup_type [] = Inr []"
| "cleanup_materials H G keys setup_type ((mat_name, mat) # rest) =
     (if mat_name = GD_MATERIAL_NAME G then cleanup_materials H G keys setup_type rest
      else
        (case cleanup_tree keys setup_type (the_tree H mat) of
           Inl e \<Rightarrow> Inl e
         | Inr t \<Rightarrow>
             (case cleanup_materials H G keys setup_type rest of
                Inl e \<Rightarrow> Inl e
              | Inr rest' \<Rightarrow>
                  Inr ((mat_name, (enable_nodes H mat)\<lparr>material.node_tree := Some t\<rparr>) # rest'))))"

text \<open>\<open>node_cleanup\<close>.  Removing the default material empties the slots that held it.\<close>

definition node_cleanup :: "host \<Rightarrow> Global \<Rightarrow> string option \<Rightarrow> bpy \<Rightarrow> py_error + bpy" where
  "node_cleanup H G setup_type b =
     (case setup_type of
        None \<Rightarrow> Inr b
      | Some st \<Rightarrow>
          (case get_material_output_inputs H of
             Inl e \<Rightarrow> Inl e
           | Inr inputs_dict \<Rightarrow>
               (case cleanup_materials H G (map fst inputs_dict) st (data_materials b) of
                  Inl e \<Rightarrow> Inl e
                | Inr ms \<Rightarrow>
                    Inr (b\<lparr>data_materials := ms,
                           data_objects :=
                             (\<lambda>k. map_option
                                     (\<lambda>ob. ob\<lparr>material_slots :=
                                                map (\<lambda>s. if s = GD_MATERIAL_NAME G then [] else s)
                                                    (material_slots ob)\<rparr>)
                                     (data_objects b k))\<rparr>))))"

section \<open>Notions used in the statements\<close>


text \<open>The slots of an object after the default material \<open>mat\<close> went into every empty
  one, or into a first slot when the object had none.\<close>

definition fill_slots :: "string \<Rightarrow> string list \<Rightarrow> string list" where
  "fill_slots mat slots = (if slots = [] then [mat] else map (\<lambda>s. if s = [] then mat else s) slots)"


section \<open>Concrete documents for the examples\<close>

text \<open>
  A concrete choice of the constants, a host whose sockets accept a number where they
  hold a float, an integer only where they hold an integer, and a tuple where they hold a
  colour or a vector, and a document with the settings a new file could have.
\<close>

definition example_Global :: Global where
  "example_Global =
     \<lparr>TRIM_CAMERA_NAME = ''GD_Trim Camera'', BG_PLANE_NAME = ''GD_Background Plane'',
      GD_MATERIAL_NAME = ''GD_Material'', NG_NODE_WARNING = ''Do not remove'',
      NORMAL_NODE = ''GD_Normal'', CURVATURE_NODE = ''GD_Curvature'',
      OCCLUSION_NODE = ''GD_Ambient Occlusion'', HEIGHT_NODE = ''GD_Height'',
      ALPHA_NODE = ''GD_Alpha'', COLOR_NODE = ''GD_Base Color'',
      EMISSIVE_NODE = ''GD_Emissive'', ROUGHNESS_NODE = ''GD_Roughness'',
      METALLIC_NODE = ''GD_Metallic'',
      SHADER_MAP_NAMES = [''GD_Base Color'', ''GD_Emissive'', ''GD_Roughness'',
                          ''GD_Metallic'', ''GD_Normal'', ''GD_Alpha'',
                          ''GD_Ambient Occlusion''],
      ALPHA_NAME = ''Alpha'', COLOR_NAME = ''Base Color'', ROUGHNESS_NAME = ''Roughness'',
      METALLIC_NAME = ''Metallic''\<rparr>"

definition example_set_default :: "socket \<Rightarrow> pyval \<Rightarrow> py_error + socket" where
  "example_set_default s v =
     (if socket.type s = ''VALUE'' then
        (case v of
           PyFloat x \<Rightarrow> Inr (s\<lparr>socket.default_value := Some (PyFloat x)\<rparr>)
         | PyInt i \<Rightarrow> Inr (s\<lparr>socket.default_value := Some (PyFloat (of_int i))\<rparr>)
         | _ \<Rightarrow> Inl TypeError)
      else if socket.type s = ''INT'' then
        (case v of
           PyInt i \<Rightarrow> Inr (s\<lparr>socket.default_value := Some (PyInt i)\<rparr>)
         | _ \<Rightarrow> Inl TypeError)
      else if socket.type s = ''RGBA'' \<or> socket.type s = ''VECTOR'' then
        (case v of
           PyTuple xs \<Rightarrow> Inr (s\<lparr>socket.default_value := Some (PyTuple xs)\<rparr>)
         | _ \<Rightarrow> Inl TypeError)
      else Inl AttributeError)"

definition example_scene :: scene where
  "example_scene =
     \<lparr>render = \<lparr>render.engine = ''BLENDER_EEVEE'', use_single_layer = False,
                 film_transparent = False, use_high_quality_normals = False,
                 filter_size = 1.5, render.resolution_x = 1920, render.resolution_y = 1080,
                 resolution_percentage = 50,
                 image_settings = \<lparr>color_mode = ''RGB'', file_format = ''JPEG'',
                                   color_depth = ''8'', compression = 15\<rparr>,
                 use_sequencer = True, use_compositing = True, dither_intensity = 1\<rparr>,
      eevee = \<lparr>taa_render_samples = 64, taa_samples = 16, use_bloom = True, use_gtao = True,
                gtao_distance = 1, gtao_quality = 0.25, use_overscan = False,
                overscan_size = 3\<rparr>,
      cycles = \<lparr>cycles.samples = 128, preview_samples = 64, cycles.filter_width = 1.5,
                 pixel_filter_type = ''GAUSSIAN''\<rparr>,
      display = \<lparr>render_aa = ''8'', viewport_aa = ''FXAA'', matcap_ssao_distance = 0.2,
                  shading = \<lparr>light = ''STUDIO'', color_type = ''MATERIAL'',
                             show_backface_culling = True, show_xray = True,
                             show_shadows = True, show_cavity = True, use_dof = True,
                             show_object_outline = True, show_specular_highlight = True,
                             cavity_type = ''WORLD'', cavity_ridge_factor = 1,
                             curvature_ridge_factor = 1, cavity_valley_factor = 1,
                             curvature_valley_factor = 1, single_color = [1, 1, 1]\<rparr>\<rparr>,
      view_settings = \<lparr>view_transform = ''Filmic'', look = ''High Contrast'', exposure = 1,
                        view_settings.gamma = 2\<rparr>,
      display_settings = \<lparr>display_device = ''sRGB''\<rparr>,
      world = Some \<lparr>use_nodes = True\<rparr>,
      camera = None,
      gd = \<lparr>filter_width = 1.2, resolution_x = 2048, resolution_y = 2048,
             coll_rendered = True, coll_visible = True, format = ''PNG'', exr_depth = ''16'',
             depth = ''16'', png_compression = 50, reference = None, preview_state = False,
             normals = [\<lparr>enabled = True, reimport = False, suffix = ''normal'', visibility = True,
                         samples = 128, samples_cycles = 32, samples_workbench = ''16'',
                         contrast = ''None'', engine = ''blender_eevee'', flip_y = False,
                         use_texture = True\<rparr>],
             occlusion = [\<lparr>enabled = True, reimport = False, suffix = ''ao'', visibility = True,
                           samples = 128, samples_cycles = 32, samples_workbench = ''16'',
                           contrast = ''None'', engine = ''blender_eevee'',
                           occlusion.gamma = 1, occlusion.distance = 1,
                           savedUseOverscan = False, savedOverscanSize = 0\<rparr>]\<rparr>\<rparr>"

text \<open>
  An example host.  It knows the node types the add-on asks for, with the sockets the
  add-on reads (where a node has several sockets of one name, only the ones it shows
  are listed); it names a duplicate by appending \<open>.001\<close> and then zeros until the name
  is free; it iterates a set in the order of the tree; and its default material tree is a
  Principled BSDF that feeds the surface of a material output.
\<close>

definition mk_socket :: "string \<Rightarrow> string \<Rightarrow> pyval option \<Rightarrow> socket" where
  "mk_socket nm ty dv = \<lparr>socket.name = nm, socket.type = ty, socket.default_value = dv\<rparr>"

definition mk_node :: "string \<Rightarrow> string \<Rightarrow> socket list \<Rightarrow> socket list \<Rightarrow> node" where
  "mk_node nm ty ins outs =
     \<lparr>node.name = nm, node.type = ty, inputs = ins, outputs = outs, location = (0, 0),
      node.node_tree = None, attrs = []\<rparr>"

definition example_material_output :: node where
  "example_material_output =
     mk_node ''Material Output'' ''OUTPUT_MATERIAL''
       [mk_socket ''Surface'' ''SHADER'' None, mk_socket ''Volume'' ''SHADER'' None,
        mk_socket ''Displacement'' ''VECTOR'' (Some (PyTuple [0, 0, 0])),
        mk_socket ''Thickness'' ''VALUE'' (Some (PyFloat 0))] []"

definition example_principled_bsdf :: node where
  "example_principled_bsdf =
     mk_node ''Principled BSDF'' ''BSDF_PRINCIPLED''
       [mk_socket ''Base Color'' ''RGBA'' (Some (PyTuple [0.8, 0.8, 0.8, 1])),
        mk_socket ''Metallic'' ''VALUE'' (Some (PyFloat 0)),
        mk_socket ''Roughness'' ''VALUE'' (Some (PyFloat 0.5)),
        mk_socket ''Alpha'' ''VALUE'' (Some (PyFloat 1)),
        mk_socket ''Normal'' ''VECTOR'' (Some (PyTuple [0, 0, 0])),
        mk_socket ''Emission Color'' ''RGBA'' (Some (PyTuple [1, 1, 1, 1])),
        mk_socket ''Emission Strength'' ''VALUE'' (Some (PyFloat 0))]
       [mk_socket ''BSDF'' ''SHADER'' None]"

definition example_new_node :: "string \<rightharpoonup> node" where
  "example_new_node = map_of
     [(''NodeGroupOutput'', mk_node ''Group Output'' ''GROUP_OUTPUT'' [] []),
      (''NodeGroupInput'', mk_node ''Group Input'' ''GROUP_INPUT'' [] []),
      (''NodeFrame'', mk_node ''Frame'' ''FRAME'' [] []),
      (''ShaderNodeGroup'', mk_node ''Group'' ''GROUP'' [] []),
      (''ShaderNodeOutputMaterial'', example_material_output),
      (''ShaderNodeBsdfPrincipled'', example_principled_bsdf),
      (''ShaderNodeBevel'', mk_node ''Bevel'' ''BEVEL''
         [mk_socket ''Radius'' ''VALUE'' (Some (PyFloat 0.05)),
          mk_socket ''Normal'' ''VECTOR'' (Some (PyTuple [0, 0, 0]))]
         [mk_socket ''Normal'' ''VECTOR'' None]),
      (''ShaderNodeVectorTransform'', mk_node ''Vector Transform'' ''VECT_TRANSFORM''
         [mk_socket ''Vector'' ''VECTOR'' (Some (PyTuple [0.5, 0.5, 0.5]))]
         [mk_socket ''Vector'' ''VECTOR'' None]),
      (''ShaderNodeVectorMath'', mk_node ''Vector Math'' ''VECT_MATH''
         [mk_socket ''Vector'' ''VECTOR'' (Some (PyTuple [0, 0, 0])),
          mk_socket ''Vector'' ''VECTOR'' (Some (PyTuple [0, 0, 0])),
          mk_socket ''Vector'' ''VECTOR'' (Some (PyTuple [0, 0, 0])),
          mk_socket ''Scale'' ''VALUE'' (Some (PyFloat 1))]
         [mk_socket ''Vector'' ''VECTOR'' None, mk_socket ''Value'' ''VALUE'' None]),
      (''ShaderNodeInvert'', mk_node ''Invert Color'' ''INVERT''
         [mk_socket ''Fac'' ''VALUE'' (Some (PyFloat 1)),
          mk_socket ''Color'' ''RGBA'' (Some (PyTuple [0, 0, 0, 1]))]
         [mk_socket ''Color'' ''RGBA'' None]),
      (''ShaderNodeMixRGB'', mk_node ''Mix (Legacy)'' ''MIX_RGB''
         [mk_socket ''Fac'' ''VALUE'' (Some (PyFloat 0.5)),
          mk_socket ''Color1'' ''RGBA'' (Some (PyTuple [0.5, 0.5, 0.5, 1])),
          mk_socket ''Color2'' ''RGBA'' (Some (PyTuple [0.5, 0.5, 0.5, 1]))]
         [mk_socket ''Color'' ''RGBA'' None]),
      (''ShaderNodeBsdfTransparent'', mk_node ''Transparent BSDF'' ''BSDF_TRANSPARENT''
         [mk_socket ''Color'' ''RGBA'' (Some (PyTuple [1, 1, 1, 1]))]
         [mk_socket ''BSDF'' ''SHADER'' None]),
      (''ShaderNodeMixShader'', mk_node ''Mix Shader'' ''MIX_SHADER''
         [mk_socket ''Fac'' ''VALUE'' (Some (PyFloat 0.5)),
          mk_socket ''Shader'' ''SHADER'' None, mk_socket ''Shader'' ''SHADER'' None]
         [mk_socket ''Shader'' ''SHADER'' None]),
      (''ShaderNodeNewGeometry'', mk_node ''Geometry'' ''NEW_GEOMETRY'' []
         [mk_socket ''Position'' ''VECTOR'' None, mk_socket ''Normal'' ''VECTOR'' None,
          mk_socket ''Pointiness'' ''VALUE'' None]),
      (''ShaderNodeValToRGB'', mk_node ''Color Ramp'' ''VALTORGB''
         [mk_socket ''Fac'' ''VALUE'' (Some (PyFloat 0.5))]
         [mk_socket ''Color'' ''RGBA'' None, mk_socket ''Alpha'' ''VALUE'' None]),
      (''ShaderNodeEmission'', mk_node ''Emission'' ''EMISSION''
         [mk_socket ''Color'' ''RGBA'' (Some (PyTuple [1, 1, 1, 1])),
          mk_socket ''Strength'' ''VALUE'' (Some (PyFloat 1))]
         [mk_socket ''Emission'' ''SHADER'' None]),
      (''ShaderNodeAmbientOcclusion'', mk_node ''Ambient Occlusion'' ''AMBIENT_OCCLUSION''
         [mk_socket ''Color'' ''RGBA'' (Some (PyTuple [1, 1, 1, 1])),
          mk_socket ''Distance'' ''VALUE'' (Some (PyFloat 1)),
          mk_socket ''Normal'' ''VECTOR'' (Some (PyTuple [0, 0, 0]))]
         [mk_socket ''Color'' ''RGBA'' None, mk_socket ''AO'' ''VALUE'' None]),
      (''ShaderNodeGamma'', mk_node ''Gamma'' ''GAMMA''
         [mk_socket ''Color'' ''RGBA'' (Some (PyTuple [1, 1, 1, 1])),
          mk_socket ''Gamma'' ''VALUE'' (Some (PyFloat 1))]
         [mk_socket ''Color'' ''RGBA'' None]),
      (''ShaderNodeCameraData'', mk_node ''Camera Data'' ''CAMERA'' []
         [mk_socket ''View Vector'' ''VECTOR'' None, mk_socket ''View Z Depth'' ''VALUE'' None,
          mk_socket ''View Distance'' ''VALUE'' None]),
      (''ShaderNodeMapRange'', mk_node ''Map Range'' ''MAP_RANGE''
         [mk_socket ''Value'' ''VALUE'' (Some (PyFloat 1)),
          mk_socket ''From Min'' ''VALUE'' (Some (PyFloat 0)),
          mk_socket ''From Max'' ''VALUE'' (Some (PyFloat 1)),
          mk_socket ''To Min'' ''VALUE'' (Some (PyFloat 0)),
          mk_socket ''To Max'' ''VALUE'' (Some (PyFloat 1))]
         [mk_socket ''Result'' ''VALUE'' None]),
      (''ShaderNodeMix'', mk_node ''Mix'' ''MIX''
         [mk_socket ''Factor'' ''VALUE'' (Some (PyFloat 0.5)),
          mk_socket ''A'' ''RGBA'' (Some (PyTuple [0.5, 0.5, 0.5, 1])),
          mk_socket ''B'' ''RGBA'' (Some (PyTuple [0.5, 0.5, 0.5, 1]))]
         [mk_socket ''Result'' ''RGBA'' None])]"

primrec fresh_from :: "nat \<Rightarrow> string list \<Rightarrow> string \<Rightarrow> string" where
  "fresh_from 0 used c = c"
| "fresh_from (Suc n) used c = (if c \<in> set used then fresh_from n used (c @ ''0'') else c)"

definition example_unique_name :: "string list \<Rightarrow> string \<Rightarrow> string" where
  "example_unique_name used wanted =
     (if wanted \<notin> set used then wanted else fresh_from (length used) used (wanted @ ''.001''))"

definition example_default_tree :: node_tree where
  "example_default_tree =
     \<lparr>nodes = [example_principled_bsdf, example_material_output],
      links = [\<lparr>from_node = ''Principled BSDF'', from_socket = 0,
                to_node = ''Material Output'', to_socket = 0\<rparr>],
      interface = [], panels = [], use_fake_user = False\<rparr>"

definition example_host :: host where
  "example_host =
     \<lparr>new_node = example_new_node, unique_name = example_unique_name,
      set_default = example_set_default, default_tree = example_default_tree,
      set_order = (\<lambda>xs. xs)\<rparr>"

definition example_object :: object where
  "example_object =
     \<lparr>material_slots = [], active_material_index = 0, location_z = 3,
      hide_viewport = False, hide_render = False, hidden = False, color_alpha = 1\<rparr>"

definition example_bpy :: bpy where
  "example_bpy =
     \<lparr>context_scene = example_scene, context_view_layer_use = False,
      context_screen_areas = [\<lparr>type = ''VIEW_3D'', spaces = [\<lparr>use_local_camera = True\<rparr>]\<rparr>],
      data_objects = [''GD_Trim Camera'' \<mapsto> example_object,
                      ''GD_Background Plane'' \<mapsto> example_object],
      data_images = [], data_node_groups = Map.empty, data_materials = [],
      data_texts = Map.empty, app_version = (4, 2, 0)\<rparr>"

definition example_op :: baker_op where
  "example_op =
     \<lparr>savedViewLayerUse = False, savedUseSingleLayer = False, savedRenderer = [],
      savedWorkbenchSampling = [], savedWorkbenchVPSampling = [],
      savedEeveeRenderSampling = 0, savedEeveeSampling = 0, savedCyclesSampling = 0,
      savedCyclesRenderSampling = 0, savedUseBloom = False, savedUseAO = False,
      savedAODistance = 0, savedAOQuality = 0, savedDisplayDevice = [],
      savedViewTransform = [], savedContrastType = [], savedExposure = 0, savedGamma = 0,
      savedTransparency = False, savedHQNormals = False, savedFilterSize = 0,
      savedFilterSizeCycles = 0, savedFilterSizeTypeCycles = [], savedColorMode = [],
      savedFileFormat = [], savedColorDepth = [], savedUseSequencer = False,
      savedUseCompositor = False, savedDitherIntensity = 0, savedLight = [],
      savedColorType = [], savedBackface = False, savedXray = False, savedShadows = False,
      savedCavity = False, savedDOF = False, savedOutline = False, savedShowSpec = False,
      savedRefSelection = None\<rparr>"

text \<open>A Color map that renders with Cycles at 32 samples.\<close>

definition example_color_map :: baker where
  "example_color_map =
     \<lparr>enabled = True, reimport = False, suffix = ''color'', visibility = True,
      samples = 128, samples_cycles = 32, samples_workbench = ''16'', contrast = ''None'',
      engine = ''cycles''\<rparr>"


text \<open>A document whose only material has no output node, on the one slot of an object.\<close>

definition example_no_output_bpy :: bpy where
  "example_no_output_bpy =
     example_bpy
       \<lparr>data_materials :=
          [(''Material'',
            \<lparr>material.use_nodes = True,
             material.node_tree =
               Some \<lparr>nodes = [example_principled_bsdf], links = [], interface = [],
                     panels = [], use_fake_user = False\<rparr>,
             blend_method = ''OPAQUE''\<rparr>)],
        data_objects :=
          (data_objects example_bpy)(''Cube'' \<mapsto> example_object\<lparr>material_slots := [''Material'']\<rparr>),
        data_node_groups :=
          [''GD_Normal'' \<mapsto> normal_interface [(''Surface'', ''NodeSocketShader'')] empty_tree]\<rparr>"




section \<open>Evaluation on a concrete tree\<close>

text \<open>The operations on a tree, as equations on a tree that is given by its fields: with
  them an operation is evaluated once its argument is.\<close>

lemma nodes_get_code [code]:
  "nodes_get \<lparr>nodes = ns, links = ls, interface = i, panels = p, use_fake_user = u\<rparr> n =
     find (\<lambda>x. node.name x = n) ns"
  by (simp add: nodes_get_def)

lemma node_names_code [code]:
  "node_names \<lparr>nodes = ns, links = ls, interface = i, panels = p, use_fake_user = u\<rparr> =
     map node.name ns"
  by (simp add: node_names_def)

lemma update_node_code [code]:
  "update_node n f \<lparr>nodes = ns, links = ls, interface = i, panels = p, use_fake_user = u\<rparr> =
     \<lparr>nodes = map (\<lambda>x. if node.name x = n then f x else x) ns, links = ls, interface = i,
      panels = p, use_fake_user = u\<rparr>"
  by (simp add: update_node_def)

lemma input_links_code [code]:
  "input_links \<lparr>nodes = ns, links = ls, interface = i, panels = p, use_fake_user = u\<rparr> n k =
     filter (\<lambda>l. to_node l = n \<and> to_socket l = k) ls"
  by (simp add: input_links_def)

lemma output_links_code [code]:
  "output_links \<lparr>nodes = ns, links = ls, interface = i, panels = p, use_fake_user = u\<rparr> n k =
     filter (\<lambda>l. from_node l = n \<and> from_socket l = k) ls"
  by (simp add: output_links_def)

lemma links_new_code [code]:
  "links_new (a, j) (c, k) \<lparr>nodes = ns, links = ls, interface = i, panels = p, use_fake_user = u\<rparr> =
     \<lparr>nodes = ns,
      links = filter (\<lambda>l. \<not> (to_node l = a \<and> to_socket l = j)) ls @
                [\<lparr>from_node = c, from_socket = k, to_node = a, to_socket = j\<rparr>],
      interface = i, panels = p, use_fake_user = u\<rparr>"
  by (simp add: links_new_def)

lemma links_remove_code [code]:
  "links_remove l \<lparr>nodes = ns, links = ls, interface = i, panels = p, use_fake_user = u\<rparr> =
     \<lparr>nodes = ns, links = filter (\<lambda>x. x \<noteq> l) ls, interface = i, panels = p, use_fake_user = u\<rparr>"
  by (simp add: links_remove_def)

lemma nodes_remove_code [code]:
  "nodes_remove n \<lparr>nodes = ns, links = ls, interface = i, panels = p, use_fake_user = u\<rparr> =
     \<lparr>nodes = filter (\<lambda>x. node.name x \<noteq> n) ns,
      links = filter (\<lambda>l. from_node l \<noteq> n \<and> to_node l \<noteq> n) ls,
      interface = i, panels = p, use_fake_user = u\<rparr>"
  by (simp add: nodes_remove_def)

lemma rename_node_code [code]:
  "rename_node H old wanted \<lparr>nodes = ns, links = ls, interface = i, panels = p, use_fake_user = u\<rparr> =
     (let n = unique_name H (filter (\<lambda>k. k \<noteq> old) (map node.name ns)) wanted
      in (n, \<lparr>nodes = map (\<lambda>x. if node.name x = old then x\<lparr>node.name := n\<rparr> else x) ns,
                links = map (\<lambda>l. l\<lparr>from_node := (if from_node l = old then n else from_node l),
                                     to_node := (if to_node l = old then n else to_node l)\<rparr>) ls,
                interface = i, panels = p, use_fake_user = u\<rparr>))"
  by (simp add: rename_node_def node_names_def)

lemma nodes_new_code [code]:
  "nodes_new H idname \<lparr>nodes = ns, links = ls, interface = i, panels = p, use_fake_user = u\<rparr> =
     (case new_node H idname of
        None \<Rightarrow> Inl RuntimeError
      | Some x \<Rightarrow>
          (let t = \<lparr>nodes = ns, links = ls, interface = i, panels = p, use_fake_user = u\<rparr>;
               x = (if idname = ''NodeGroupInput''
                    then x\<lparr>outputs := interface_sockets ''INPUT'' t\<rparr>
                    else if idname = ''NodeGroupOutput''
                    then x\<lparr>inputs := interface_sockets ''OUTPUT'' t\<rparr>
                    else x);
               n = unique_name H (map node.name ns) (node.name x)
           in Inr (n, \<lparr>nodes = ns @ [x\<lparr>node.name := n\<rparr>], links = ls, interface = i, panels = p,
                        use_fake_user = u\<rparr>)))"
  by (simp add: nodes_new_def node_names_def Let_def split: option.splits)

lemma output_nodes_code [code]:
  "output_nodes \<lparr>nodes = ns, links = ls, interface = i, panels = p, use_fake_user = u\<rparr> =
     map node.name (filter (\<lambda>x. node.type x = ''OUTPUT_MATERIAL'') ns)"
  by (simp add: output_nodes_def)

section \<open>Properties of the read accessors\<close>

lemma bake_maps_of_filter:
  "bake_maps_of enabled_only ms =
     filter (\<lambda>m. \<not> enabled_only \<or> (enabled m \<and> visibility m)) ms"
  by (induction ms) auto

lemma collect_bake_maps_filter:
  "collect_bake_maps enabled_only bs =
     filter (\<lambda>m. \<not> enabled_only \<or> (enabled m \<and> visibility m)) (concat bs)"
  by (induction bs) (auto simp: bake_maps_of_filter)

text \<open>
  Claim C10.  With \<open>enabled_only\<close> set, \<open>get_bake_maps\<close> returns, in order, exactly the
  configured maps whose \<open>enabled\<close> and \<open>visibility\<close> flags are both set (a map that is
  enabled but not visible is left out); with \<open>enabled_only\<close> cleared it returns every
  configured map.
\<close>

theorem get_bake_maps_enabled_visible:
  "get_bake_maps ids gd_attr True =
     filter (\<lambda>m. enabled m \<and> visibility m) (concat (get_bakers ids gd_attr))
   \<and> get_bake_maps ids gd_attr False = concat (get_bakers ids gd_attr)"
  by (simp add: get_bake_maps_def collect_bake_maps_filter)

section \<open>Properties of the bake run's initialisation and cleanup\<close>

lemma baker_init_saved:
  assumes "baker_init G self b = Inr (self1, b1)"
  shows "savedViewLayerUse self1 = context_view_layer_use b
     \<and> savedUseSingleLayer self1 = use_single_layer (render (context_scene b))
     \<and> savedRenderer self1 = render.engine (render (context_scene b))
     \<and> savedWorkbenchSampling self1 = render_aa (display (context_scene b))
     \<and> savedWorkbenchVPSampling self1 = viewport_aa (display (context_scene b))
     \<and> savedEeveeRenderSampling self1 = taa_render_samples (eevee (context_scene b))
     \<and> savedEeveeSampling self1 = taa_samples (eevee (context_scene b))
     \<and> savedUseBloom self1 = use_bloom (eevee (context_scene b))
     \<and> savedUseAO self1 = use_gtao (eevee (context_scene b))
     \<and> savedAODistance self1 = gtao_distance (eevee (context_scene b))
     \<and> savedAOQuality self1 = gtao_quality (eevee (context_scene b))
     \<and> savedDisplayDevice self1 = display_device (display_settings (context_scene b))
     \<and> savedViewTransform self1 = view_transform (view_settings (context_scene b))
     \<and> savedContrastType self1 = look (view_settings (context_scene b))
     \<and> savedExposure self1 = exposure (view_settings (context_scene b))
     \<and> savedGamma self1 = view_settings.gamma (view_settings (context_scene b))
     \<and> savedTransparency self1 = film_transparent (render (context_scene b))
     \<and> savedFilterSize self1 = filter_size (render (context_scene b))
     \<and> savedFilterSizeCycles self1 = cycles.filter_width (cycles (context_scene b))
     \<and> savedFilterSizeTypeCycles self1 = pixel_filter_type (cycles (context_scene b))
     \<and> savedColorMode self1 = color_mode (image_settings (render (context_scene b)))
     \<and> savedFileFormat self1 = file_format (image_settings (render (context_scene b)))
     \<and> savedColorDepth self1 = color_depth (image_settings (render (context_scene b)))
     \<and> savedUseSequencer self1 = use_sequencer (render (context_scene b))
     \<and> savedUseCompositor self1 = use_compositing (render (context_scene b))
     \<and> savedDitherIntensity self1 = dither_intensity (render (context_scene b))
     \<and> savedLight self1 = light (shading (display (context_scene b)))
     \<and> savedColorType self1 = color_type (shading (display (context_scene b)))
     \<and> savedBackface self1 = show_backface_culling (shading (display (context_scene b)))
     \<and> savedXray self1 = show_xray (shading (display (context_scene b)))
     \<and> savedShadows self1 = show_shadows (shading (display (context_scene b)))
     \<and> savedCavity self1 = show_cavity (shading (display (context_scene b)))
     \<and> savedDOF self1 = use_dof (shading (display (context_scene b)))
     \<and> savedOutline self1 = show_object_outline (shading (display (context_scene b)))
     \<and> savedShowSpec self1 = show_specular_highlight (shading (display (context_scene b)))
     \<and> savedCyclesSampling self1 = preview_samples (cycles (context_scene b))
     \<and> savedCyclesRenderSampling self1 = cycles.samples (cycles (context_scene b))
     \<and> savedRefSelection self1 = reference (gd (context_scene b))
     \<and> app_version b1 = app_version b"
  using assms
  by (clarsimp simp add: baker_init_def Let_def split: option.splits)

lemma baker_cleanup_restored:
  assumes "baker_cleanup self1 b' = Inr (self2, b2)"
  shows "context_view_layer_use b2 = savedViewLayerUse self1
     \<and> use_single_layer (render (context_scene b2)) = savedUseSingleLayer self1
     \<and> render.engine (render (context_scene b2)) = savedRenderer self1
     \<and> render_aa (display (context_scene b2)) = savedWorkbenchSampling self1
     \<and> viewport_aa (display (context_scene b2)) = savedWorkbenchVPSampling self1
     \<and> taa_render_samples (eevee (context_scene b2)) = savedEeveeRenderSampling self1
     \<and> taa_samples (eevee (context_scene b2)) = savedEeveeSampling self1
     \<and> use_bloom (eevee (context_scene b2)) = savedUseBloom self1
     \<and> use_gtao (eevee (context_scene b2)) = savedUseAO self1
     \<and> gtao_distance (eevee (context_scene b2)) = savedAODistance self1
     \<and> gtao_quality (eevee (context_scene b2)) = savedAOQuality self1
     \<and> display_device (display_settings (context_scene b2)) = savedDisplayDevice self1
     \<and> view_transform (view_settings (context_scene b2)) = savedViewTransform self1
     \<and> look (view_settings (context_scene b2)) = savedContrastType self1
     \<and> exposure (view_settings (context_scene b2)) = savedExposure self1
     \<and> view_settings.gamma (view_settings (context_scene b2)) = savedGamma self1
     \<and> film_transparent (render (context_scene b2)) = savedTransparency self1
     \<and> filter_size (render (context_scene b2)) = savedFilterSize self1
     \<and> cycles.filter_width (cycles (context_scene b2)) = savedFilterSizeCycles self1
     \<and> pixel_filter_type (cycles (context_scene b2)) = savedFilterSizeTypeCycles self1
     \<and> color_mode (image_settings (render (context_scene b2))) = savedColorMode self1
     \<and> file_format (image_settings (render (context_scene b2))) = savedFileFormat self1
     \<and> color_depth (image_settings (render (context_scene b2))) = savedColorDepth self1
     \<and> use_sequencer (render (context_scene b2)) = savedUseSequencer self1
     \<and> use_compositing (render (context_scene b2)) = savedUseCompositor self1
     \<and> dither_intensity (render (context_scene b2)) = savedDitherIntensity self1
     \<and> light (shading (display (context_scene b2))) = savedLight self1
     \<and> color_type (shading (display (context_scene b2))) = savedColorType self1
     \<and> show_backface_culling (shading (display (context_scene b2))) = savedBackface self1
     \<and> show_xray (shading (display (context_scene b2))) = savedXray self1
     \<and> show_shadows (shading (display (context_scene b2))) = savedShadows self1
     \<and> show_cavity (shading (display (context_scene b2))) = savedCavity self1
     \<and> use_dof (shading (display (context_scene b2))) = savedDOF self1
     \<and> show_object_outline (shading (display (context_scene b2))) = savedOutline self1
     \<and> show_specular_highlight (shading (display (context_scene b2))) = savedShowSpec self1"
  using assms
  by (clarsimp simp add: baker_cleanup_def Let_def split: option.splits if_splits)

text \<open>
  Whatever the bake maps do to the scene between \<open>baker_init\<close> and \<open>baker_cleanup\<close>
  (\<open>sc\<close> is any scene), each of the following settings ends with the value it had when
  \<open>baker_init\<close> captured it.  The Cycles sample counts are not in the list.
\<close>

theorem baker_cleanup_restores:
  assumes "baker_init G self b = Inr (self1, b1)"
    and "baker_cleanup self1 (b1\<lparr>context_scene := sc\<rparr>) = Inr (self2, b2)"
  shows "context_view_layer_use b2 = context_view_layer_use b
     \<and> use_single_layer (render (context_scene b2)) = use_single_layer (render (context_scene b))
     \<and> render.engine (render (context_scene b2)) = render.engine (render (context_scene b))
     \<and> render_aa (display (context_scene b2)) = render_aa (display (context_scene b))
     \<and> viewport_aa (display (context_scene b2)) = viewport_aa (display (context_scene b))
     \<and> taa_render_samples (eevee (context_scene b2)) = taa_render_samples (eevee (context_scene b))
     \<and> taa_samples (eevee (context_scene b2)) = taa_samples (eevee (context_scene b))
     \<and> use_bloom (eevee (context_scene b2)) = use_bloom (eevee (context_scene b))
     \<and> use_gtao (eevee (context_scene b2)) = use_gtao (eevee (context_scene b))
     \<and> gtao_distance (eevee (context_scene b2)) = gtao_distance (eevee (context_scene b))
     \<and> gtao_quality (eevee (context_scene b2)) = gtao_quality (eevee (context_scene b))
     \<and> display_device (display_settings (context_scene b2)) = display_device (display_settings (context_scene b))
     \<and> view_transform (view_settings (context_scene b2)) = view_transform (view_settings (context_scene b))
     \<and> look (view_settings (context_scene b2)) = look (view_settings (context_scene b))
     \<and> exposure (view_settings (context_scene b2)) = exposure (view_settings (context_scene b))
     \<and> view_settings.gamma (view_settings (context_scene b2)) = view_settings.gamma (view_settings (context_scene b))
     \<and> film_transparent (render (context_scene b2)) = film_transparent (render (context_scene b))
     \<and> filter_size (render (context_scene b2)) = filter_size (render (context_scene b))
     \<and> cycles.filter_width (cycles (context_scene b2)) = cycles.filter_width (cycles (context_scene b))
     \<and> pixel_filter_type (cycles (context_scene b2)) = pixel_filter_type (cycles (context_scene b))
     \<and> color_mode (image_settings (render (context_scene b2))) = color_mode (image_settings (render (context_scene b)))
     \<and> file_format (image_settings (render (context_scene b2))) = file_format (image_settings (render (context_scene b)))
     \<and> color_depth (image_settings (render (context_scene b2))) = color_depth (image_settings (render (context_scene b)))
     \<and> use_sequencer (render (context_scene b2)) = use_sequencer (render (context_scene b))
     \<and> use_compositing (render (context_scene b2)) = use_compositing (render (context_scene b))
     \<and> dither_intensity (render (context_scene b2)) = dither_intensity (render (context_scene b))
     \<and> light (shading (display (context_scene b2))) = light (shading (display (context_scene b)))
     \<and> color_type (shading (display (context_scene b2))) = color_type (shading (display (context_scene b)))
     \<and> show_backface_culling (shading (display (context_scene b2))) = show_backface_culling (shading (display (context_scene b)))
     \<and> show_xray (shading (display (context_scene b2))) = show_xray (shading (display (context_scene b)))
     \<and> show_shadows (shading (display (context_scene b2))) = show_shadows (shading (display (context_scene b)))
     \<and> show_cavity (shading (display (context_scene b2))) = show_cavity (shading (display (context_scene b)))
     \<and> use_dof (shading (display (context_scene b2))) = use_dof (shading (display (context_scene b)))
     \<and> show_object_outline (shading (display (context_scene b2))) = show_object_outline (shading (display (context_scene b)))
     \<and> show_specular_highlight (shading (display (context_scene b2))) = show_specular_highlight (shading (display (context_scene b)))"
  using baker_init_saved [OF assms(1)] baker_cleanup_restored [OF assms(2)]
  by simp

lemma baker_cleanup_returns:
  "savedRefSelection self = None \<Longrightarrow> \<exists>self' b'. baker_cleanup self b = Inr (self', b')"
  by (simp add: baker_cleanup_def Let_def)

theorem baker_cleanup_restores_witness:
  "\<exists>self1 b1 self2 b2.
     baker_init example_Global example_op example_bpy = Inr (self1, b1)
     \<and> baker_cleanup self1
          (b1\<lparr>context_scene := bake_each [example_color_map] (context_scene b1)\<rparr>) = Inr (self2, b2)
     \<and> render.engine (render (context_scene b2)) = ''BLENDER_EEVEE''
     \<and> look (view_settings (context_scene b2)) = ''High Contrast''"
proof -
  obtain self1 b1 where i: "baker_init example_Global example_op example_bpy = Inr (self1, b1)"
    by (simp add: baker_init_def example_bpy_def example_Global_def Let_def)
  have "savedRefSelection self1 = None"
    using baker_init_saved [OF i] by (simp add: example_bpy_def example_scene_def)
  then obtain self2 b2 where c:
    "baker_cleanup self1
       (b1\<lparr>context_scene := bake_each [example_color_map] (context_scene b1)\<rparr>) = Inr (self2, b2)"
    using baker_cleanup_returns by blast
  have "render.engine (render (context_scene b2)) = ''BLENDER_EEVEE''
      \<and> look (view_settings (context_scene b2)) = ''High Contrast''"
    using baker_cleanup_restores [OF i c] by (simp add: example_bpy_def example_scene_def)
  with i c show ?thesis by blast
qed

text \<open>
  Claim C1.  The claim is that every captured setting, the per-engine sampling included,
  has its captured value again after \<open>baker_cleanup\<close>.  A bake run over one Color map
  that renders with Cycles at 32 samples starts with 128 render samples and 64 preview
  samples and ends with 32 of each: \<open>baker_cleanup\<close> stores the scene's current Cycles
  sample counts into \<open>self\<close> where it should write the saved ones back.
\<close>

theorem baker_cleanup_cycles_sampling_not_restored:
  "\<exists>self' b'. bake_run example_Global [example_color_map] example_op example_bpy = Inr (self', b')
     \<and> cycles.samples (cycles (context_scene example_bpy)) = 128
     \<and> preview_samples (cycles (context_scene example_bpy)) = 64
     \<and> cycles.samples (cycles (context_scene b')) = 32
     \<and> preview_samples (cycles (context_scene b')) = 32"
  by (simp add: bake_run_def baker_init_def baker_cleanup_def example_bpy_def example_Global_def
      Let_def example_op_def example_scene_def example_color_map_def Baker_setup_def
      Baker_cleanup_def apply_render_settings_def upper_def set_color_management_def
      version_ge_def)

section \<open>Properties of \<open>node_init\<close>\<close>

lemma ensure_groups_result:
  "ensure_groups rs g = Inr g' \<Longrightarrow>
     (\<forall>k \<in> dom g. g' k = g k) \<and> fst ` set rs \<subseteq> dom g' \<and> dom g \<subseteq> dom g'"
proof (induction rs arbitrary: g)
  case Nil
  then show ?case by simp
next
  case (Cons r rs)
  obtain nm built where r: "r = (nm, built)" by (cases r)
  show ?case
  proof (cases "nm \<in> dom g")
    case True
    with Cons.prems r have "ensure_groups rs g = Inr g'" by auto
    from Cons.IH [OF this] True r show ?thesis by auto
  next
    case False
    with Cons.prems r obtain tree where b: "built = Inr tree"
      and e: "ensure_groups rs (g(nm \<mapsto> tree)) = Inr g'"
      by (auto simp: domIff split: sum.splits)
    from Cons.IH [OF e] False r show ?thesis by (auto simp: domIff)
  qed
qed

lemma ensure_groups_present:
  "fst ` set rs \<subseteq> dom g \<Longrightarrow> ensure_groups rs g = Inr g"
  by (induction rs) (auto simp: domIff)

lemma recipes_names:
  "map fst (recipes H G b d) =
     [NORMAL_NODE G, CURVATURE_NODE G, OCCLUSION_NODE G, HEIGHT_NODE G, ALPHA_NODE G,
      COLOR_NODE G, EMISSIVE_NODE G, ROUGHNESS_NODE G, METALLIC_NODE G]"
  by (simp add: recipes_def Let_def)

text \<open>
  Claim C2.  When \<open>node_init\<close> has returned, running it again returns the same document:
  the same node groups under the same names, each with the same nodes.  And the first
  run leaves every group alone that was there before it: a recipe is built only when no
  group has its name.
\<close>

theorem node_init_idempotent:
  assumes "node_init H G b = Inr b1"
  shows "node_init H G b1 = Inr b1
     \<and> (\<forall>k \<in> dom (data_node_groups b). data_node_groups b1 k = data_node_groups b k)"
proof -
  from assms obtain d g' where d: "get_material_output_inputs H = Inr d"
    and e: "ensure_groups (recipes H G b d) (data_node_groups b) = Inr g'"
    and b1: "b1 = b\<lparr>data_node_groups := g'\<rparr>"
    by (auto simp: node_init_def split: sum.splits)
  from ensure_groups_result [OF e]
  have keep: "\<forall>k \<in> dom (data_node_groups b). g' k = data_node_groups b k"
    and all: "fst ` set (recipes H G b d) \<subseteq> dom g'" by auto
  have "fst ` set (recipes H G b1 d) = fst ` set (recipes H G b d)"
    using recipes_names [of H G b1 d] recipes_names [of H G b d]
    by (metis set_map)
  with all have "ensure_groups (recipes H G b1 d) g' = Inr g'"
    by (simp add: ensure_groups_present)
  with d b1 keep show ?thesis by (simp add: node_init_def)
qed

lemma node_init_example_returns:
  "(case node_init example_host example_Global example_bpy of
      Inl e \<Rightarrow> False | Inr b \<Rightarrow> True)"
  by code_simp

theorem node_init_idempotent_witness:
  "\<exists>b1. node_init example_host example_Global example_bpy = Inr b1
      \<and> node_init example_host example_Global b1 = Inr b1"
proof -
  obtain b1 where "node_init example_host example_Global example_bpy = Inr b1"
    using node_init_example_returns by (auto split: sum.splits)
  with node_init_idempotent [OF this] show ?thesis by blast
qed

section \<open>Properties of \<open>create_node_links\<close>\<close>



section \<open>Properties of \<open>apply_node_to_objects\<close>\<close>

lemma splice_material_no_output:
  "nm \<notin> set (node_names (the_tree H m)) \<Longrightarrow> output_nodes (the_tree H m) = [] \<Longrightarrow>
   splice_material H G nm use_tex node_group material_name m ok = Inl AttributeError"
  by (simp add: splice_material_def Let_def)

lemma the_tree_enable_nodes: "the_tree H (enable_nodes H m) = the_tree H m"
  by (simp add: the_tree_def enable_nodes_def split: option.splits)

text \<open>
  Claim C8.  When the material of an object's first slot has neither the node \<open>name\<close>
  nor a material output node, \<open>apply_node_to_objects\<close> raises \<open>AttributeError\<close>: the
  output nodes are collected in a set, and a set has no \<open>append\<close>.  No output node is
  made and nothing is spliced.
\<close>

theorem apply_node_to_objects_without_output_raises:
  assumes "data_objects b ob = Some obj"
    and "material_slots obj = s # ss"
    and "[] \<notin> set (s # ss)"
    and "materials_get (data_materials b) s = Some m"
    and "nm \<notin> set (node_names (the_tree H m))"
    and "output_nodes (the_tree H m) = []"
  shows "apply_node_to_objects H G nm (ob # obs) b = Inl AttributeError"
proof -
  from assms(1-3) have 1: "assign_default_material H G ob b = Inr b"
    by (simp add: assign_default_material_def)
  have "splice_slot H G nm s (b, True) = Inl AttributeError"
    using assms(4-6)
    by (simp add: splice_slot_def Let_def splice_material_no_output the_tree_enable_nodes)
  with 1 assms(1,2) show ?thesis
    by (simp add: apply_node_to_objects_def apply_node_to_object_def)
qed

theorem apply_node_to_objects_without_output_raises_witness:
  "apply_node_to_objects example_host example_Global ''GD_Normal'' [''Cube'']
     example_no_output_bpy = Inl AttributeError"
  using apply_node_to_objects_without_output_raises
    [of example_no_output_bpy "''Cube''" "example_object\<lparr>material_slots := [''Material'']\<rparr>"
        "''Material''" "[]"
        "\<lparr>material.use_nodes = True,
             material.node_tree =
               Some \<lparr>nodes = [example_principled_bsdf], links = [], interface = [],
                     panels = [], use_fake_user = False\<rparr>,
             blend_method = ''OPAQUE''\<rparr>" "''GD_Normal''" example_host example_Global "[]"]
  by (simp add: example_no_output_bpy_def example_bpy_def example_object_def materials_get_def
      the_tree_def node_names_def output_nodes_def example_principled_bsdf_def mk_node_def)








lemma fill_slots_no_empty: "mat \<noteq> [] \<Longrightarrow> fill_slots mat slots \<noteq> [] \<and> [] \<notin> set (fill_slots mat slots)"
  by (auto simp: fill_slots_def)















end
